theory Spec2Isabelle
  imports Main "HOL-Library.Word"
begin

unbundle bit_operations_syntax

section \<open>Python values used by the wrapper\<close>

text \<open>
  The module \<^verbatim>\<open>gcop_rs/__init__.py\<close> is a download-and-dispatch wrapper. Everything it
  does is an effect on its host: it asks the platform for its name, reads environment
  variables, creates directories, reads and writes files, fetches a URL, prints to the
  diagnostic stream and runs a child process. The embedding makes the host explicit: an
  immutable record \<open>host\<close> for what the wrapper can only ask, and a record \<open>world\<close>
  for what it changes. Every function of the module becomes a function from the host
  and the world to a result and the new world. A Python exception is a value: a function
  that can raise returns \<open>exn + 'a\<close>, with \<open>Inl\<close> for the exception.
\<close>

subsection \<open>Exceptions\<close>

text \<open>
  The exceptions the module can see. \<open>RuntimeError\<close> is what the module raises itself,
  and what \<^verbatim>\<open>Path.home()\<close> raises; \<open>OSError\<close> stands for the failures of the file
  system, of the network (\<^verbatim>\<open>urllib.error.URLError\<close> is a subclass of it) and of
  process creation; \<open>UnicodeDecodeError\<close> is what reading a file as text raises on
  bytes that are no text; \<open>KeyboardInterrupt\<close> is the operator's interrupt. The
  argument is the message, which is what \<^verbatim>\<open>f"{e}"\<close> prints. The messages of the
  module's own errors are the source's; the others name the kind of failure only
  (Python adds the error number, the path or the offending bytes).
\<close>

datatype exn =
    RuntimeError string
  | OSError string
  | UnicodeDecodeError string
  | KeyboardInterrupt

text \<open>
  \<^verbatim>\<open>except Exception\<close> catches the instances of \<^verbatim>\<open>Exception\<close>.
  \<^verbatim>\<open>KeyboardInterrupt\<close> derives from \<^verbatim>\<open>BaseException\<close> only.
\<close>

fun is_Exception :: "exn \<Rightarrow> bool" where
  "is_Exception (RuntimeError _) = True"
| "is_Exception (OSError _) = True"
| "is_Exception (UnicodeDecodeError _) = True"
| "is_Exception KeyboardInterrupt = False"

fun str_exn :: "exn \<Rightarrow> string" where
  "str_exn (RuntimeError msg) = msg"
| "str_exn (OSError msg) = msg"
| "str_exn (UnicodeDecodeError msg) = msg"
| "str_exn KeyboardInterrupt = []"

subsection \<open>Strings\<close>

text \<open>
  A Python \<^verbatim>\<open>str\<close> is a list of code points; a \<open>char\<close> is a code point below 256,
  so the text of the model is the text of Latin-1. \<^verbatim>\<open>str.lower()\<close> maps the
  letters A to Z and the upper-case letters 192 to 222 (215, the multiplication sign,
  apart) to the letter 32 places further. \<^verbatim>\<open>str.strip()\<close> removes the characters
  for which \<^verbatim>\<open>str.isspace()\<close> holds from both ends: below 256 these are 9 to 13,
  28 to 32, 133 (next line) and 160 (no-break space).
\<close>

definition lower_char :: "char \<Rightarrow> char" where
  "lower_char c =
     (case map_of (zip ''ABCDEFGHIJKLMNOPQRSTUVWXYZ'' ''abcdefghijklmnopqrstuvwxyz'') c of
        Some d \<Rightarrow> d
      | None \<Rightarrow>
          if 192 \<le> (of_char c :: nat) \<and> (of_char c :: nat) \<le> 222 \<and> (of_char c :: nat) \<noteq> 215
          then char_of ((of_char c :: nat) + 32)
          else c)"

definition lower :: "string \<Rightarrow> string" where
  "lower s = map lower_char s"

definition is_space :: "char \<Rightarrow> bool" where
  "is_space c =
     ((of_char c :: nat) \<in> {9, 10, 11, 12, 13, 28, 29, 30, 31, 32, 133, 160})"

definition strip :: "string \<Rightarrow> string" where
  "strip s = rev (dropWhile is_space (rev (dropWhile is_space s)))"

subsection \<open>Paths and nodes\<close>

text \<open>
  A \<^verbatim>\<open>pathlib.Path\<close> is the list of its components; \<^verbatim>\<open>p / name\<close> appends one.
  The parent of a path drops the last component. How a string is parsed into a path
  and how a path is printed depend on the platform's flavour of \<^verbatim>\<open>pathlib\<close>; both
  are taken from the host (\<open>path_of\<close>, \<open>path_str\<close> below).
\<close>

type_synonym path = "string list"

definition joinpath :: "path \<Rightarrow> string \<Rightarrow> path" where
  "joinpath p name = p @ [name]"

text \<open>
  A file holds bytes. \<open>Text s\<close> is the content of a file whose bytes are the text
  \<open>s\<close> in the encoding of the host, which is what \<^verbatim>\<open>Path.write_text(s)\<close> writes and
  what reading gives back; \<open>Bytes b\<close> is any other content, which the host's decoder
  may or may not accept as text. A file has twelve permission bits, and so has a
  directory. The file system maps the paths that exist to their nodes.
\<close>

type_synonym perm = "12 word"

datatype content = Text string | Bytes string

datatype node = File content perm | Dir perm

type_synonym filesystem = "path \<rightharpoonup> node"

section \<open>The host\<close>

text \<open>
  What a retrieval of a URL does: it delivers the whole body; or it fails before the
  target file is opened (the host cannot be reached, the server answers with an error);
  or it fails after part of the body has been written. A failure is an exception, and
  the operator's interrupt is one of them.
\<close>

datatype fetch = Served string | Refused exn | Aborted string exn

text \<open>
  What running a child process does: the child exits with a return code; or the
  operator interrupts the wait (whatever status the child has reported by then, if
  any, is never read); or the process cannot be started.
\<close>

datatype child_run = Exited int | Interrupted "int option" | NotStarted string

text \<open>
  The rights the wrapper needs on the file system: to create a node in its directory,
  to open an existing file for writing, to change the mode of a file.
\<close>

datatype access = Create | Write | Chmod

record host =
  system :: string
  machine :: string
  environ :: "string \<rightharpoonup> string"
  home :: "path option"
  path_of :: "string \<Rightarrow> path"
  path_str :: "path \<Rightarrow> string"
  umask :: perm
  decode :: "string \<Rightarrow> string option"
  denied :: "access \<Rightarrow> path \<Rightarrow> bool"
  written_perm :: "perm \<Rightarrow> perm"
  argv :: "string list"
  net :: "string \<Rightarrow> fetch"
  child :: "string list \<Rightarrow> child_run"

text \<open>
  \<open>system\<close> is \<^verbatim>\<open>platform.system()\<close>, \<open>machine\<close> is \<^verbatim>\<open>platform.machine()\<close>,
  \<open>environ\<close> is \<^verbatim>\<open>os.environ\<close>, \<open>path_of s\<close> is \<^verbatim>\<open>Path(s)\<close>, \<open>path_str p\<close> is
  \<^verbatim>\<open>str(p)\<close>, \<open>argv\<close> is \<^verbatim>\<open>sys.argv\<close>, \<open>umask\<close> is the umask of the process.

  \<open>home\<close> is the home directory, \<open>None\<close> when it cannot be determined (no
  \<^verbatim>\<open>HOME\<close> and no entry in the password database; no \<^verbatim>\<open>USERPROFILE\<close> and no
  \<^verbatim>\<open>HOMEPATH\<close> on Windows).

  \<open>decode b\<close> is the text of the bytes \<open>b\<close> in the encoding of the host, \<open>None\<close>
  when they are no text in that encoding.

  \<open>denied a p\<close> holds when the system refuses the process the access \<open>a\<close> to the
  path \<open>p\<close>. The rights to read and to search what exists are not modelled: the
  process is taken to have them.

  \<open>written_perm m\<close> is the mode the system leaves to a file of mode \<open>m\<close> that the
  process has opened for writing and written: the write of an unprivileged process
  clears the set-user-ID and set-group-ID bits.
\<close>

section \<open>The file system\<close>

definition exists_path :: "filesystem \<Rightarrow> path \<Rightarrow> bool" where
  "exists_path t p = (t p \<noteq> None)"

fun is_dir_node :: "node option \<Rightarrow> bool" where
  "is_dir_node (Some (Dir _)) = True"
| "is_dir_node _ = False"

fun is_file_node :: "node option \<Rightarrow> bool" where
  "is_file_node (Some (File _ _)) = True"
| "is_file_node _ = False"

definition is_dir :: "filesystem \<Rightarrow> path \<Rightarrow> bool" where
  "is_dir t p = is_dir_node (t p)"

definition is_file :: "filesystem \<Rightarrow> path \<Rightarrow> bool" where
  "is_file t p = is_file_node (t p)"

text \<open>
  A file system is well formed when everything that exists, the root \<open>[]\<close> apart, lies
  in a directory that exists.
\<close>

definition wf_fs :: "filesystem \<Rightarrow> bool" where
  "wf_fs t = (\<forall>p. p \<noteq> [] \<longrightarrow> t p \<noteq> None \<longrightarrow> is_dir t (butlast p))"

text \<open>
  \<^verbatim>\<open>Path.mkdir(parents=True, exist_ok=True)\<close>, with the file system it leaves.
  \<^verbatim>\<open>os.mkdir\<close> fails on a path that exists, and the failure is swallowed when the
  path is a directory, raised when it is a file. On a path that does not exist, a file
  in the place of the parent makes the call fail; otherwise the missing parents are
  created first (recursively, by the same call), then the directory itself, unless the
  system refuses. The parents created before a refusal stay. New directories get the
  mode \<^verbatim>\<open>0o777\<close> less the umask. The recursion ends at the root \<open>[]\<close>, which a file
  system that holds anything has as a directory.
\<close>

function mkdir_parents :: "host \<Rightarrow> filesystem \<Rightarrow> path \<Rightarrow> (exn + unit) \<times> filesystem" where
  "mkdir_parents h t p =
     (case t p of
        Some (Dir _) \<Rightarrow> (Inr (), t)
      | Some (File _ _) \<Rightarrow> (Inl (OSError ''File exists''), t)
      | None \<Rightarrow>
          if p = [] then (Inr (), t(p \<mapsto> Dir (511 AND NOT (umask h))))
          else if is_file t (butlast p) then (Inl (OSError ''Not a directory''), t)
          else (case mkdir_parents h t (butlast p) of
                  (Inl e, t') \<Rightarrow> (Inl e, t')
                | (Inr _, t') \<Rightarrow>
                    if denied h Create p then (Inl (OSError ''Permission denied''), t')
                    else (Inr (), t'(p \<mapsto> Dir (511 AND NOT (umask h))))))"
  by pat_completeness auto
termination
  by (relation "measure (\<lambda>(h, t, p). length p)") auto

declare mkdir_parents.simps [simp del]

text \<open>
  \<^verbatim>\<open>Path.read_text()\<close>: the text of the file, decoded in the encoding of the host.
\<close>

definition read_text :: "host \<Rightarrow> filesystem \<Rightarrow> path \<Rightarrow> exn + string" where
  "read_text h t p =
     (case t p of
        Some (File (Text s) _) \<Rightarrow> Inr s
      | Some (File (Bytes b) _) \<Rightarrow>
          (case decode h b of
             Some s \<Rightarrow> Inr s
           | None \<Rightarrow> Inl (UnicodeDecodeError ''invalid start byte''))
      | Some (Dir _) \<Rightarrow> Inl (OSError ''Is a directory'')
      | None \<Rightarrow> Inl (OSError ''No such file or directory''))"

text \<open>
  Opening a path for writing and writing a content to it (\<^verbatim>\<open>open(p, "wb")\<close> in
  \<^verbatim>\<open>urlretrieve\<close>, \<^verbatim>\<open>Path.write_text\<close>): an existing file is truncated, and its
  mode is what the system leaves of it; a new file is created in an existing directory
  with the mode \<^verbatim>\<open>0o666\<close> less the umask; a directory cannot be opened for writing;
  the system can refuse either.
\<close>

definition write_file :: "host \<Rightarrow> filesystem \<Rightarrow> path \<Rightarrow> content \<Rightarrow> exn + filesystem" where
  "write_file h t p c =
     (case t p of
        Some (File _ m) \<Rightarrow>
          if denied h Write p then Inl (OSError ''Permission denied'')
          else Inr (t(p \<mapsto> File c (written_perm h m)))
      | Some (Dir _) \<Rightarrow> Inl (OSError ''Is a directory'')
      | None \<Rightarrow>
          if is_dir t (butlast p) then
            (if denied h Create p then Inl (OSError ''Permission denied'')
             else Inr (t(p \<mapsto> File c (438 AND NOT (umask h)))))
          else Inl (OSError ''No such file or directory''))"

text \<open>
  \<^verbatim>\<open>Path.stat().st_mode\<close> is a Python integer: the file type (\<^verbatim>\<open>S_IFREG = 0o100000\<close>,
  \<^verbatim>\<open>S_IFDIR = 0o040000\<close>) together with the permission bits. \<^verbatim>\<open>Path.chmod(mode)\<close>
  stores the twelve permission bits of \<open>mode\<close>, unless the system refuses.
\<close>

definition S_IFREG :: int where "S_IFREG = 32768"
definition S_IFDIR :: int where "S_IFDIR = 16384"
definition S_IXUSR :: int where "S_IXUSR = 64"
definition S_IXGRP :: int where "S_IXGRP = 8"
definition S_IXOTH :: int where "S_IXOTH = 1"

definition st_mode :: "filesystem \<Rightarrow> path \<Rightarrow> exn + int" where
  "st_mode t p =
     (case t p of
        Some (File _ m) \<Rightarrow> Inr (S_IFREG OR uint m)
      | Some (Dir m) \<Rightarrow> Inr (S_IFDIR OR uint m)
      | None \<Rightarrow> Inl (OSError ''No such file or directory''))"

definition chmod :: "host \<Rightarrow> filesystem \<Rightarrow> path \<Rightarrow> int \<Rightarrow> exn + filesystem" where
  "chmod h t p mode =
     (case t p of
        Some (File c _) \<Rightarrow>
          if denied h Chmod p then Inl (OSError ''Operation not permitted'')
          else Inr (t(p \<mapsto> File c (word_of_int mode)))
      | Some (Dir _) \<Rightarrow>
          if denied h Chmod p then Inl (OSError ''Operation not permitted'')
          else Inr (t(p \<mapsto> Dir (word_of_int mode)))
      | None \<Rightarrow> Inl (OSError ''No such file or directory''))"

section \<open>The world\<close>

text \<open>
  The world records the file system, the URLs retrieved so far, the lines printed to
  \<^verbatim>\<open>sys.stderr\<close> and the command lines of the child processes run so far.
\<close>

record world =
  fs :: filesystem
  net_log :: "string list"
  stderr :: "string list"
  spawned :: "string list list"

section \<open>The module\<close>

definition version :: string where
  "version = ''0.4.2''"

definition GITHUB_RELEASE_URL :: string where
  "GITHUB_RELEASE_URL = ''https://github.com/AptS-1547/gcop-rs/releases/download''"

subsection \<open>\<^verbatim>\<open>get_binary_name\<close>\<close>

definition get_binary_name :: "host \<Rightarrow> exn + (string \<times> string)" where
  "get_binary_name h =
     (let system' = lower (system h);
          machine' = lower (machine h)
      in case (if machine' \<in> {''x86_64'', ''amd64''} then Inr ''amd64''
               else if machine' \<in> {''arm64'', ''aarch64''} then Inr ''arm64''
               else Inl (RuntimeError (''Unsupported architecture: '' @ machine'))) of
           Inl e \<Rightarrow> Inl e
         | Inr arch \<Rightarrow>
             if system' = ''darwin'' then Inr (''macos-'' @ arch, ''gcop-rs'')
             else if system' = ''linux'' then Inr (''linux-'' @ arch, ''gcop-rs'')
             else if system' = ''windows'' then
               Inr (if arch = ''arm64'' then ''windows-aarch64.exe'' else ''windows-amd64.exe'',
                    ''gcop-rs.exe'')
             else Inl (RuntimeError (''Unsupported operating system: '' @ system')))"

subsection \<open>\<^verbatim>\<open>get_binary_path\<close>\<close>

text \<open>
  \<^verbatim>\<open>Path.home()\<close> raises when the home directory cannot be determined: a
  \<^verbatim>\<open>RuntimeError\<close> with this message since Python 3.10, and an instance of
  \<^verbatim>\<open>Exception\<close> in every version.
\<close>

definition Path_home :: "host \<Rightarrow> exn + path" where
  "Path_home h =
     (case home h of
        None \<Rightarrow> Inl (RuntimeError ''Could not determine home directory.'')
      | Some p \<Rightarrow> Inr p)"

text \<open>
  In \<^verbatim>\<open>os.environ.get(name, Path.home() / ...)\<close> the second argument is evaluated
  before the call, whether the variable is set or not: each of the three branches
  calls \<^verbatim>\<open>Path.home()\<close> first.
\<close>

definition get_binary_path :: "host \<Rightarrow> exn + path" where
  "get_binary_path h =
     (case (if system h = ''Windows'' then
              (case Path_home h of
                 Inl e \<Rightarrow> Inl e
               | Inr home_dir \<Rightarrow>
                   Inr (case environ h ''LOCALAPPDATA'' of
                          Some s \<Rightarrow> path_of h s
                        | None \<Rightarrow> joinpath (joinpath home_dir ''AppData'') ''Local''))
            else if system h = ''Darwin'' then
              (case Path_home h of
                 Inl e \<Rightarrow> Inl e
               | Inr home_dir \<Rightarrow> Inr (joinpath (joinpath home_dir ''Library'') ''Caches''))
            else
              (case Path_home h of
                 Inl e \<Rightarrow> Inl e
               | Inr home_dir \<Rightarrow>
                   Inr (case environ h ''XDG_CACHE_HOME'' of
                          Some s \<Rightarrow> path_of h s
                        | None \<Rightarrow> joinpath home_dir ''.cache''))) of
        Inl e \<Rightarrow> Inl e
      | Inr cache_dir \<Rightarrow> Inr (joinpath (joinpath cache_dir ''gcop-rs'') ''bin''))"

subsection \<open>\<^verbatim>\<open>download_binary\<close>\<close>

text \<open>
  \<^verbatim>\<open>urllib.request.urlretrieve(url, filename)\<close>: one retrieval of \<open>url\<close>, recorded
  in \<open>net_log\<close>. The URL is opened before the file is; what has been received is
  written to the file, also when the transfer fails half way.
\<close>

definition urlretrieve :: "host \<Rightarrow> world \<Rightarrow> string \<Rightarrow> path \<Rightarrow> (exn + unit) \<times> world" where
  "urlretrieve h w url filename =
     (let w' = w\<lparr>net_log := net_log w @ [url]\<rparr>
      in case net h url of
           Refused e \<Rightarrow> (Inl e, w')
         | Served body \<Rightarrow>
             (case write_file h (fs w') filename (Bytes body) of
                Inl e \<Rightarrow> (Inl e, w')
              | Inr fs' \<Rightarrow> (Inr (), w'\<lparr>fs := fs'\<rparr>))
         | Aborted part e \<Rightarrow>
             (case write_file h (fs w') filename (Bytes part) of
                Inl e' \<Rightarrow> (Inl e', w')
              | Inr fs' \<Rightarrow> (Inl e, w'\<lparr>fs := fs'\<rparr>)))"

text \<open>The URL of the release asset (line 81).\<close>

definition asset_url :: "string \<Rightarrow> string" where
  "asset_url platform_str =
     GITHUB_RELEASE_URL @ ''/v'' @ version @ ''/gcop-rs-v'' @ version @ ''-'' @ platform_str"

text \<open>
  \<^verbatim>\<open>binary_path.chmod(binary_path.stat().st_mode | stat.S_IXUSR | stat.S_IXGRP |
  stat.S_IXOTH)\<close> (line 91).
\<close>

definition make_executable :: "host \<Rightarrow> filesystem \<Rightarrow> path \<Rightarrow> exn + filesystem" where
  "make_executable h t binary_path =
     (case st_mode t binary_path of
        Inl e \<Rightarrow> Inl e
      | Inr mode \<Rightarrow> chmod h t binary_path (mode OR S_IXUSR OR S_IXGRP OR S_IXOTH))"

text \<open>
  The second half of \<^verbatim>\<open>download_binary\<close> (lines 80 to 97), reached when the cached
  binary is not kept: the transfer, the executable bits, the version marker.
  \<^verbatim>\<open>except Exception\<close> wraps the failures of the transfer that are instances of
  \<^verbatim>\<open>Exception\<close>; an interrupt passes through.
\<close>

definition download_binary_fetch ::
    "host \<Rightarrow> world \<Rightarrow> string \<Rightarrow> path \<Rightarrow> path \<Rightarrow> (exn + path) \<times> world" where
  "download_binary_fetch h w platform_str binary_path version_file =
     (let url = asset_url platform_str;
          w1 = w\<lparr>stderr := stderr w @
                 [''Downloading gcop-rs v'' @ version @ '' for '' @ platform_str @ ''...'']\<rparr>
      in case urlretrieve h w1 url binary_path of
           (Inl e, w2) \<Rightarrow>
             if is_Exception e then
               (Inl (RuntimeError
                  (''Failed to download binary from '' @ url @ '': '' @ str_exn e)), w2)
             else (Inl e, w2)
         | (Inr _, w2) \<Rightarrow>
             (case (if system h \<noteq> ''Windows'' then make_executable h (fs w2) binary_path
                    else Inr (fs w2)) of
                Inl e \<Rightarrow> (Inl e, w2)
              | Inr fs3 \<Rightarrow>
                  (case write_file h fs3 version_file (Text version) of
                     Inl e \<Rightarrow> (Inl e, w2\<lparr>fs := fs3\<rparr>)
                   | Inr fs4 \<Rightarrow>
                       (Inr binary_path,
                        w2\<lparr>fs := fs4,
                           stderr := stderr w2 @
                             [''Downloaded to '' @ path_str h binary_path]\<rparr>))))"

text \<open>
  The check of lines 75 to 77: both paths exist and the marker, read and stripped,
  is the version. Reading the marker can raise.
\<close>

definition have_correct_version :: "host \<Rightarrow> filesystem \<Rightarrow> path \<Rightarrow> path \<Rightarrow> exn + bool" where
  "have_correct_version h t binary_path version_file =
     (if exists_path t binary_path \<and> exists_path t version_file then
        (case read_text h t version_file of
           Inl e \<Rightarrow> Inl e
         | Inr current_version \<Rightarrow> Inr (strip current_version = version))
      else Inr False)"

definition download_binary :: "host \<Rightarrow> world \<Rightarrow> (exn + path) \<times> world" where
  "download_binary h w =
     (case get_binary_name h of
        Inl e \<Rightarrow> (Inl e, w)
      | Inr (platform_str, binary_name) \<Rightarrow>
          (case get_binary_path h of
             Inl e \<Rightarrow> (Inl e, w)
           | Inr bin_dir \<Rightarrow>
               (case mkdir_parents h (fs w) bin_dir of
                  (Inl e, fs1) \<Rightarrow> (Inl e, w\<lparr>fs := fs1\<rparr>)
                | (Inr _, fs1) \<Rightarrow>
                    (let w1 = w\<lparr>fs := fs1\<rparr>;
                         binary_path = joinpath bin_dir binary_name;
                         version_file = joinpath bin_dir ''version''
                     in case have_correct_version h fs1 binary_path version_file of
                          Inl e \<Rightarrow> (Inl e, w1)
                        | Inr True \<Rightarrow> (Inr binary_path, w1)
                        | Inr False \<Rightarrow>
                            download_binary_fetch h w1 platform_str binary_path
                              version_file))))"

subsection \<open>\<^verbatim>\<open>main\<close>\<close>

text \<open>
  \<^verbatim>\<open>subprocess.run(cmd)\<close>: the return code of the child, or the exception raised
  while starting or waiting for it.
\<close>

definition subprocess_run :: "host \<Rightarrow> string list \<Rightarrow> exn + int" where
  "subprocess_run h cmd =
     (case child h cmd of
        Exited returncode \<Rightarrow> Inr returncode
      | Interrupted _ \<Rightarrow> Inl KeyboardInterrupt
      | NotStarted msg \<Rightarrow> Inl (OSError msg))"

text \<open>
  The result of \<open>main\<close> is its return value, which the script hands to
  \<^verbatim>\<open>sys.exit\<close>, or the exception that leaves it. The first \<^verbatim>\<open>try\<close> catches the
  instances of \<^verbatim>\<open>Exception\<close>, the second one \<^verbatim>\<open>KeyboardInterrupt\<close> only.
\<close>

definition main :: "host \<Rightarrow> world \<Rightarrow> (exn + int) \<times> world" where
  "main h w =
     (case download_binary h w of
        (Inl e, w1) \<Rightarrow>
          if is_Exception e then
            (Inr 1, w1\<lparr>stderr := stderr w1 @ [''Error: '' @ str_exn e]\<rparr>)
          else (Inl e, w1)
      | (Inr binary_path, w1) \<Rightarrow>
          (let cmd = [path_str h binary_path] @ drop 1 (argv h);
               w2 = w1\<lparr>spawned := spawned w1 @ [cmd]\<rparr>
           in case subprocess_run h cmd of
                Inr returncode \<Rightarrow> (Inr returncode, w2)
              | Inl KeyboardInterrupt \<Rightarrow> (Inr 130, w2)
              | Inl e \<Rightarrow> (Inl e, w2)))"

subsection \<open>The notice printed before the transfer\<close>

text \<open>The line that \<open>download_binary_fetch\<close> prints first (line 82).\<close>

definition downloading_msg :: "string \<Rightarrow> string" where
  "downloading_msg platform_str =
     ''Downloading gcop-rs v'' @ version @ '' for '' @ platform_str @ ''...''"

section \<open>Hosts for the concrete scenarios\<close>

text \<open>
  Two flavours of paths for the concrete hosts: components joined by a separator, and a
  string split at the separator (empty components dropped).
\<close>

fun join_str :: "string \<Rightarrow> string list \<Rightarrow> string" where
  "join_str sep [] = []"
| "join_str sep [x] = x"
| "join_str sep (x # y # ys) = x @ sep @ join_str sep (y # ys)"

fun split_str :: "char \<Rightarrow> string \<Rightarrow> string \<Rightarrow> string list" where
  "split_str sep acc [] = (if acc = [] then [] else [acc])"
| "split_str sep acc (c # cs) =
     (if c = sep then (if acc = [] then [] else [acc]) @ split_str sep [] cs
      else split_str sep (acc @ [c]) cs)"

definition posix_str :: "path \<Rightarrow> string" where
  "posix_str p = ''/'' @ join_str ''/'' p"

definition posix_path_of :: "string \<Rightarrow> path" where
  "posix_path_of s = split_str (CHR ''/'') [] s"

definition windows_str :: "path \<Rightarrow> string" where
  "windows_str p = join_str [CHR 0x5C] p"

definition windows_path_of :: "string \<Rightarrow> path" where
  "windows_path_of s = split_str (CHR 0x5C) [] s"

text \<open>
  The hosts decode every file (as a Latin-1 locale does), refuse nothing, and treat
  the mode of a file they write as Linux does for an owner without privilege: the
  set-user-ID bit (\<^verbatim>\<open>0o4000\<close>) is cleared, and so is the set-group-ID bit
  (\<^verbatim>\<open>0o2000\<close>) of a file that its group may execute. There is a macOS host, a
  Windows host with the given environment and network, and a Linux host with the given
  environment, network and child process. The Linux host's home is \<^verbatim>\<open>/home/dev\<close>,
  its umask \<^verbatim>\<open>0o022\<close>.
\<close>

definition no_net :: "string \<Rightarrow> fetch" where
  "no_net url = Refused (OSError ''Name or service not known'')"

definition unprivileged_write :: "perm \<Rightarrow> perm" where
  "unprivileged_write m = (if bit m 3 then m AND NOT 3072 else m AND NOT 2048)"

definition mac_host :: host where
  "mac_host = \<lparr>system = ''Darwin'', machine = ''aarch64'', environ = Map.empty,
     home = Some [''Users'', ''dev''], path_of = posix_path_of, path_str = posix_str,
     umask = 18, decode = Some, denied = (\<lambda>a p. False),
     written_perm = unprivileged_write, argv = [''gcop-rs'', ''commit''], net = no_net,
     child = (\<lambda>cmd. Exited 0)\<rparr>"

definition win_host :: "(string \<rightharpoonup> string) \<Rightarrow> (string \<Rightarrow> fetch) \<Rightarrow> host" where
  "win_host env nt = \<lparr>system = ''Windows'', machine = ''AMD64'', environ = env,
     home = Some [''C:'', ''Users'', ''dev''], path_of = windows_path_of,
     path_str = windows_str, umask = 0, decode = Some, denied = (\<lambda>a p. False),
     written_perm = unprivileged_write, argv = [''gcop-rs'', ''review''], net = nt,
     child = (\<lambda>cmd. Exited 0)\<rparr>"

definition linux_url :: string where
  "linux_url =
     ''https://github.com/AptS-1547/gcop-rs/releases/download/v0.4.2/gcop-rs-v0.4.2-linux-amd64''"

definition stub_net :: "string \<Rightarrow> fetch" where
  "stub_net url =
     (if url = linux_url then Served ''ELF''
      else Refused (OSError ''HTTP Error 404: Not Found''))"

definition stub_host ::
    "(string \<rightharpoonup> string) \<Rightarrow> (string \<Rightarrow> fetch) \<Rightarrow> (string list \<Rightarrow> child_run) \<Rightarrow> host" where
  "stub_host env nt ch = \<lparr>system = ''Linux'', machine = ''x86_64'', environ = env,
     home = Some [''home'', ''dev''], path_of = posix_path_of, path_str = posix_str,
     umask = 18, decode = Some, denied = (\<lambda>a p. False),
     written_perm = unprivileged_write, argv = [''gcop-rs'', ''commit'', ''--yes''],
     net = nt, child = ch\<rparr>"

text \<open>
  The Linux host's cache directory, binary and version marker; a world with nothing
  on disk; and a world whose cache holds a binary of the given mode and content and a
  marker with the given text.
\<close>

definition cache_dir :: path where
  "cache_dir = [''home'', ''dev'', ''.cache'', ''gcop-rs'', ''bin'']"

definition binary_file :: path where
  "binary_file = [''home'', ''dev'', ''.cache'', ''gcop-rs'', ''bin'', ''gcop-rs'']"

definition version_marker :: path where
  "version_marker = [''home'', ''dev'', ''.cache'', ''gcop-rs'', ''bin'', ''version'']"

definition cold_world :: world where
  "cold_world = \<lparr>fs = Map.empty, net_log = [], stderr = [], spawned = []\<rparr>"

definition cached_fs :: "perm \<Rightarrow> string \<Rightarrow> string \<Rightarrow> filesystem" where
  "cached_fs mode binary marker =
     [[] \<mapsto> Dir 493, [''home''] \<mapsto> Dir 493, [''home'', ''dev''] \<mapsto> Dir 493,
      [''home'', ''dev'', ''.cache''] \<mapsto> Dir 493,
      [''home'', ''dev'', ''.cache'', ''gcop-rs''] \<mapsto> Dir 493,
      [''home'', ''dev'', ''.cache'', ''gcop-rs'', ''bin''] \<mapsto> Dir 493,
      [''home'', ''dev'', ''.cache'', ''gcop-rs'', ''bin'', ''gcop-rs''] \<mapsto>
        File (Bytes binary) mode,
      [''home'', ''dev'', ''.cache'', ''gcop-rs'', ''bin'', ''version''] \<mapsto>
        File (Text marker) 420]"

definition cached_world :: "string \<Rightarrow> string \<Rightarrow> world" where
  "cached_world binary marker =
     \<lparr>fs = cached_fs 493 binary marker, net_log = [], stderr = [], spawned = []\<rparr>"

text \<open>A world whose cache is out of date, with a binary of the given mode.\<close>

definition stale_world :: "perm \<Rightarrow> world" where
  "stale_world mode =
     \<lparr>fs = cached_fs mode ''old'' ''0.4.1'', net_log = [], stderr = [], spawned = []\<rparr>"

text \<open>A host made one whose home directory cannot be determined.\<close>

definition homeless :: "host \<Rightarrow> host" where
  "homeless h = h\<lparr>home := None\<rparr>"

section \<open>Lemmas on strings, paths and names\<close>

lemma butlast_joinpath: "butlast (joinpath p name) = p"
  by (simp add: joinpath_def)

lemma strip_version: "strip version = version"
  by (simp add: strip_def version_def is_space_def)

lemma binary_name_cases:
  "get_binary_name h = Inr (ps, bn) \<Longrightarrow> bn = ''gcop-rs'' \<or> bn = ''gcop-rs.exe''"
  by (auto simp add: get_binary_name_def Let_def split: if_splits)

lemma binary_name_not_version: "get_binary_name h = Inr (ps, bn) \<Longrightarrow> bn \<noteq> ''version''"
  by (auto dest: binary_name_cases)

lemma bin_paths:
  assumes "get_binary_name h = Inr (ps, bn)"
  shows "joinpath d bn \<noteq> joinpath d ''version''" "joinpath d bn \<noteq> d" "joinpath d ''version'' \<noteq> d"
  using binary_name_not_version [OF assms] by (simp_all add: joinpath_def)

lemma get_binary_path_home:
  "home h = Some home_dir \<Longrightarrow>
   get_binary_path h =
     Inr (joinpath (joinpath
       (if system h = ''Windows'' then
          (case environ h ''LOCALAPPDATA'' of
             Some s \<Rightarrow> path_of h s
           | None \<Rightarrow> joinpath (joinpath home_dir ''AppData'') ''Local'')
        else if system h = ''Darwin'' then joinpath (joinpath home_dir ''Library'') ''Caches''
        else (case environ h ''XDG_CACHE_HOME'' of
                Some s \<Rightarrow> path_of h s
              | None \<Rightarrow> joinpath home_dir ''.cache'')) ''gcop-rs'') ''bin'')"
  by (simp add: get_binary_path_def Path_home_def)

lemma get_binary_path_no_home:
  "home h = None \<Longrightarrow>
   get_binary_path h = Inl (RuntimeError ''Could not determine home directory.'')"
  by (simp add: get_binary_path_def Path_home_def)

section \<open>Lemmas on the file system\<close>




lemma wf_fs_parent: "wf_fs t \<Longrightarrow> t p \<noteq> None \<Longrightarrow> p \<noteq> [] \<Longrightarrow> is_dir t (butlast p)"
  by (simp add: wf_fs_def)

lemma wf_fs_child_dir: "wf_fs t \<Longrightarrow> exists_path t (joinpath d name) \<Longrightarrow> is_dir t d"
  using wf_fs_parent [of t "joinpath d name"]
  by (simp add: exists_path_def butlast_joinpath joinpath_def)

lemma mkdir_parents_Dir: "t p = Some (Dir m) \<Longrightarrow> mkdir_parents h t p = (Inr (), t)"
  by (subst mkdir_parents.simps) simp

lemma mkdir_parents_File:
  "t p = Some (File c m) \<Longrightarrow> mkdir_parents h t p = (Inl (OSError ''File exists''), t)"
  by (subst mkdir_parents.simps) simp

lemma mkdir_parents_root:
  "t [] = None \<Longrightarrow> mkdir_parents h t [] = (Inr (), t([] \<mapsto> Dir (511 AND NOT (umask h))))"
  by (subst mkdir_parents.simps) simp

lemma mkdir_parents_None:
  "t p = None \<Longrightarrow> p \<noteq> [] \<Longrightarrow>
   mkdir_parents h t p =
     (if is_file t (butlast p) then (Inl (OSError ''Not a directory''), t)
      else (case mkdir_parents h t (butlast p) of
              (Inl e, t') \<Rightarrow> (Inl e, t')
            | (Inr _, t') \<Rightarrow>
                if denied h Create p then (Inl (OSError ''Permission denied''), t')
                else (Inr (), t'(p \<mapsto> Dir (511 AND NOT (umask h))))))"
  by (subst mkdir_parents.simps) simp

lemma mkdir_parents_is_dir: "is_dir t p \<Longrightarrow> mkdir_parents h t p = (Inr (), t)"
  by (cases "t p" rule: is_dir_node.cases) (simp_all add: is_dir_def mkdir_parents_Dir)

lemma mkdir_parents_post:
  "mkdir_parents h t p = (r, t') \<Longrightarrow>
     (\<forall>q. t q \<noteq> None \<longrightarrow> t' q = t q) \<and>
     (\<forall>q. length p < length q \<longrightarrow> t' q = t q) \<and>
     (r = Inr () \<longrightarrow> is_dir t' p)"
proof (induction h t p arbitrary: r t' rule: mkdir_parents.induct)
  case (1 h t p)
  show ?case
  proof (cases "t p")
    case None
    show ?thesis
    proof (cases "p = []")
      case True
      with None "1.prems" show ?thesis
        by (auto simp add: mkdir_parents_root is_dir_def)
    next
      case False
      show ?thesis
      proof (cases "is_file t (butlast p)")
        case True
        with None False "1.prems" show ?thesis
          by (auto simp add: mkdir_parents_None)
      next
        case nf: False
        obtain r1 t1 where rec: "mkdir_parents h t (butlast p) = (r1, t1)"
          by (cases "mkdir_parents h t (butlast p)")
        from "1.IH" [OF None False nf rec]
        have ih: "\<forall>q. t q \<noteq> None \<longrightarrow> t1 q = t q"
          "\<forall>q. length (butlast p) < length q \<longrightarrow> t1 q = t q"
          by simp_all
        from False have lp: "length (butlast p) < length p"
          by (cases p rule: rev_cases) simp_all
        with ih(2) have keep: "\<forall>q. length p < length q \<longrightarrow> t1 q = t q" by auto
        from None False nf rec "1.prems"
        have "(r, t') = (case r1 of Inl e \<Rightarrow> (Inl e, t1)
                | Inr _ \<Rightarrow> if denied h Create p then (Inl (OSError ''Permission denied''), t1)
                    else (Inr (), t1(p \<mapsto> Dir (511 AND NOT (umask h)))))"
          by (simp add: mkdir_parents_None)
        with ih(1) keep None show ?thesis
          by (auto simp add: is_dir_def split: sum.splits if_splits)
      qed
    qed
  next
    case (Some n)
    with "1.prems" show ?thesis
      by (cases n) (auto simp add: mkdir_parents_Dir mkdir_parents_File is_dir_def)
  qed
qed

lemma mkdir_parents_succeeds:
  "\<forall>k\<le>length p. \<not> is_file t (take k p) \<Longrightarrow> \<forall>q. \<not> denied h Create q \<Longrightarrow>
   \<exists>t'. mkdir_parents h t p = (Inr (), t')"
proof (induction h t p rule: mkdir_parents.induct)
  case (1 h t p)
  show ?case
  proof (cases "t p")
    case None
    show ?thesis
    proof (cases "p = []")
      case True
      with None show ?thesis by (simp add: mkdir_parents_root)
    next
      case False
      then have lp: "length (butlast p) < length p"
        by (cases p rule: rev_cases) simp_all
      have pre: "\<forall>k\<le>length (butlast p). \<not> is_file t (take k (butlast p))"
      proof (intro allI impI)
        fix k assume "k \<le> length (butlast p)"
        with lp have "k < length p" by simp
        then have "k \<le> length p" "take k (butlast p) = take k p"
          by (simp_all add: take_butlast)
        with "1.prems"(1) show "\<not> is_file t (take k (butlast p))" by simp
      qed
      from pre have nf: "\<not> is_file t (butlast p)" by auto
      from "1.IH" [OF None False nf pre "1.prems"(2)] None False nf "1.prems"(2)
      show ?thesis
        by (auto simp add: mkdir_parents_None)
    qed
  next
    case (Some n)
    from "1.prems" have "\<not> is_file t (take (length p) p)" by blast
    with Some show ?thesis
      by (cases n) (auto simp add: mkdir_parents_Dir is_file_def)
  qed
qed

lemma word_of_int_OR: "(word_of_int (a OR b) :: perm) = word_of_int a OR word_of_int b"
  by (rule bit_word_eqI) (simp add: bit_simps)

lemma S_IFREG_perm: "(word_of_int S_IFREG :: perm) = 0"
  by (simp add: S_IFREG_def)

lemma exec_bits:
  "(word_of_int ((S_IFREG OR uint m) OR S_IXUSR OR S_IXGRP OR S_IXOTH) :: perm) = m OR 73"
  by (simp add: word_of_int_OR S_IFREG_perm S_IXUSR_def S_IXGRP_def S_IXOTH_def or.assoc)

lemma exec_words:
  "(word_of_int S_IXUSR :: perm) = 64" "(word_of_int S_IXGRP :: perm) = 8"
  "(word_of_int S_IXOTH :: perm) = 1"
  by (simp_all add: S_IXUSR_def S_IXGRP_def S_IXOTH_def)

lemma bit_73: "bit (73 :: perm) n = (n \<in> {0, 3, 6})"
proof -
  have "(73 :: perm) = 2 ^ 0 OR 2 ^ 3 OR 2 ^ 6" by simp
  then show ?thesis
    by (simp only: bit_or_iff bit_exp_iff) (auto simp add: possible_bit_def)
qed

lemma make_executable_File:
  "t p = Some (File c m) \<Longrightarrow> \<not> denied h Chmod p \<Longrightarrow>
   make_executable h t p = Inr (t(p \<mapsto> File c (m OR 73)))"
  by (simp add: make_executable_def st_mode_def chmod_def exec_bits)

lemma make_executable_Inr:
  "make_executable h t p = Inr t' \<Longrightarrow> t p = Some (File c m) \<Longrightarrow>
   t' = t(p \<mapsto> File c (m OR 73))"
  by (auto simp add: make_executable_def st_mode_def chmod_def exec_bits split: if_splits)

lemma write_file_Inr:
  "write_file h t p c = Inr t' \<Longrightarrow> \<exists>m. t' = t(p \<mapsto> File c m)"
  by (auto simp add: write_file_def split: option.splits node.splits if_splits)

lemma write_file_ok:
  "\<not> is_dir t p \<Longrightarrow> is_dir t (butlast p) \<Longrightarrow> \<forall>a. \<not> denied h a p \<Longrightarrow>
   \<exists>m. write_file h t p c = Inr (t(p \<mapsto> File c m))"
  by (auto simp add: write_file_def is_dir_def split: option.splits node.splits)

lemma write_file_frame: "write_file h t p c = Inr t' \<Longrightarrow> q \<noteq> p \<Longrightarrow> t' q = t q"
  by (auto dest: write_file_Inr)



section \<open>Lemmas on the fetcher\<close>

lemma urlretrieve_net_log: "net_log (snd (urlretrieve h w url p)) = net_log w @ [url]"
  by (simp add: urlretrieve_def Let_def split: fetch.splits sum.splits)

lemma urlretrieve_spawned: "spawned (snd (urlretrieve h w url p)) = spawned w"
  by (simp add: urlretrieve_def Let_def split: fetch.splits sum.splits)


lemma urlretrieve_Inr:
  assumes "urlretrieve h w url p = (Inr u, w2)"
  shows "\<exists>body m. net h url = Served body \<and>
           w2 = w\<lparr>net_log := net_log w @ [url], fs := (fs w)(p \<mapsto> File (Bytes body) m)\<rparr>"
proof -
  from assms obtain body t2 where n: "net h url = Served body"
    and t2: "write_file h (fs w) p (Bytes body) = Inr t2"
    and w2: "w2 = w\<lparr>net_log := net_log w @ [url], fs := t2\<rparr>"
    by (auto simp add: urlretrieve_def Let_def split: fetch.splits sum.splits)
  from write_file_Inr [OF t2] obtain m where "t2 = (fs w)(p \<mapsto> File (Bytes body) m)" by blast
  with n w2 show ?thesis by blast
qed

lemma fetch_unfold:
  "download_binary_fetch h w ps bp vf =
     (case urlretrieve h (w\<lparr>stderr := stderr w @ [downloading_msg ps]\<rparr>) (asset_url ps) bp of
        (Inl e, w2) \<Rightarrow>
          if is_Exception e then
            (Inl (RuntimeError
               (''Failed to download binary from '' @ asset_url ps @ '': '' @ str_exn e)), w2)
          else (Inl e, w2)
      | (Inr _, w2) \<Rightarrow>
          (case (if system h \<noteq> ''Windows'' then make_executable h (fs w2) bp
                 else Inr (fs w2)) of
             Inl e \<Rightarrow> (Inl e, w2)
           | Inr fs3 \<Rightarrow>
               (case write_file h fs3 vf (Text version) of
                  Inl e \<Rightarrow> (Inl e, w2\<lparr>fs := fs3\<rparr>)
                | Inr fs4 \<Rightarrow>
                    (Inr bp,
                     w2\<lparr>fs := fs4,
                        stderr := stderr w2 @ [''Downloaded to '' @ path_str h bp]\<rparr>))))"
  by (simp add: download_binary_fetch_def Let_def downloading_msg_def)

lemma fetch_net_log:
  "net_log (snd (download_binary_fetch h w ps bp vf)) = net_log w @ [asset_url ps]"
  using urlretrieve_net_log [of h "w\<lparr>stderr := stderr w @ [downloading_msg ps]\<rparr>"
      "asset_url ps" bp]
  by (auto simp add: fetch_unfold split: prod.splits sum.splits)

lemma fetch_spawned:
  "spawned (snd (download_binary_fetch h w ps bp vf)) = spawned w"
  using urlretrieve_spawned [of h "w\<lparr>stderr := stderr w @ [downloading_msg ps]\<rparr>"
      "asset_url ps" bp]
  by (auto simp add: fetch_unfold split: prod.splits sum.splits)

lemma fetch_failed:
  assumes "net h (asset_url ps) = Refused e"
  shows "download_binary_fetch h w ps bp vf =
           (Inl (if is_Exception e
                 then RuntimeError
                   (''Failed to download binary from '' @ asset_url ps @ '': '' @ str_exn e)
                 else e),
            w\<lparr>net_log := net_log w @ [asset_url ps],
               stderr := stderr w @ [downloading_msg ps]\<rparr>)"
  using assms by (simp add: fetch_unfold urlretrieve_def Let_def)

lemma fetch_Inr:
  assumes r: "download_binary_fetch h w ps bp vf = (Inr p, w1)" and ne: "bp \<noteq> vf"
  shows "p = bp \<and>
         (\<exists>body m mv. net h (asset_url ps) = Served body \<and>
            fs w1 = (fs w)(bp \<mapsto> File (Bytes body) m, vf \<mapsto> File (Text version) mv)) \<and>
         net_log w1 = net_log w @ [asset_url ps]"
proof -
  let ?w0 = "w\<lparr>stderr := stderr w @ [downloading_msg ps]\<rparr>"
  from r obtain w2 where
    u: "urlretrieve h ?w0 (asset_url ps) bp = (Inr (), w2)"
    by (auto simp add: fetch_unfold split: prod.splits sum.splits if_splits)
  from urlretrieve_Inr [OF u] obtain body m where n: "net h (asset_url ps) = Served body"
    and w2: "w2 = ?w0\<lparr>net_log := net_log w @ [asset_url ps],
                      fs := (fs w)(bp \<mapsto> File (Bytes body) m)\<rparr>"
    by auto
  from r u obtain t3 t4 where
    t3: "(if system h \<noteq> ''Windows'' then make_executable h (fs w2) bp else Inr (fs w2)) = Inr t3"
    and t4: "write_file h t3 vf (Text version) = Inr t4"
    and p: "p = bp" and w1: "fs w1 = t4" "net_log w1 = net_log w2"
    by (auto simp add: fetch_unfold split: sum.splits)
  from t3 w2 obtain m' where t3': "t3 = (fs w)(bp \<mapsto> File (Bytes body) m')"
    by (cases "system h \<noteq> ''Windows''") (auto dest: make_executable_Inr)
  from write_file_Inr [OF t4] obtain mv where "t4 = t3(vf \<mapsto> File (Text version) mv)" by blast
  with t3' w1 w2 p n show ?thesis by auto
qed


lemma fetch_served:
  assumes net: "net h (asset_url ps) = Served body"
    and nd: "\<not> is_dir (fs w) bp" "\<not> is_dir (fs w) vf"
    and par: "is_dir (fs w) (butlast bp)" "is_dir (fs w) (butlast vf)"
    and ne: "bp \<noteq> vf"
    and ok: "\<forall>a. \<not> denied h a bp" "\<forall>a. \<not> denied h a vf"
  shows "fst (download_binary_fetch h w ps bp vf) = Inr bp"
proof -
  let ?w0 = "w\<lparr>stderr := stderr w @ [downloading_msg ps]\<rparr>"
  from write_file_ok [OF nd(1) par(1) ok(1)] obtain m where
    w2: "write_file h (fs w) bp (Bytes body) = Inr ((fs w)(bp \<mapsto> File (Bytes body) m))"
    by blast
  let ?t2 = "(fs w)(bp \<mapsto> File (Bytes body) m)"
  from net w2 have u: "urlretrieve h ?w0 (asset_url ps) bp =
      (Inr (), ?w0\<lparr>net_log := net_log w @ [asset_url ps], fs := ?t2\<rparr>)"
    by (simp add: urlretrieve_def Let_def)
  show ?thesis
  proof (cases "system h = ''Windows''")
    case True
    from nd par(2) ne have "\<not> is_dir ?t2 vf" "is_dir ?t2 (butlast vf)"
      by (auto simp add: is_dir_def)
    from write_file_ok [OF this ok(2)] obtain mv where
      "write_file h ?t2 vf (Text version) = Inr (?t2(vf \<mapsto> File (Text version) mv))"
      by blast
    with u True show ?thesis by (simp add: fetch_unfold)
  next
    case False
    let ?t3 = "?t2(bp \<mapsto> File (Bytes body) (m OR 73))"
    from ok(1) have x: "make_executable h ?t2 bp = Inr ?t3"
      by (simp add: make_executable_File)
    from nd par(2) ne have "\<not> is_dir ?t3 vf" "is_dir ?t3 (butlast vf)"
      by (auto simp add: is_dir_def)
    from write_file_ok [OF this ok(2)] obtain mv where
      "write_file h ?t3 vf (Text version) = Inr (?t3(vf \<mapsto> File (Text version) mv))"
      by blast
    with u x False show ?thesis by (simp add: fetch_unfold)
  qed
qed

lemma have_correct_version_cong:
  "t bp = t' bp \<Longrightarrow> t vf = t' vf \<Longrightarrow>
   have_correct_version h t bp vf = have_correct_version h t' bp vf"
  by (simp add: have_correct_version_def exists_path_def read_text_def)

lemma have_correct_version_written:
  assumes "bp \<noteq> vf"
  shows "have_correct_version h (t(bp \<mapsto> File c m, vf \<mapsto> File (Text version) mv)) bp vf =
           Inr True"
  using assms
  by (simp add: have_correct_version_def exists_path_def read_text_def strip_version)

lemma have_correct_version_True:
  "exists_path t bp \<Longrightarrow> read_text h t vf = Inr marker \<Longrightarrow> strip marker = version \<Longrightarrow>
   have_correct_version h t bp vf = Inr True"
  by (auto simp add: have_correct_version_def exists_path_def read_text_def
      split: option.splits node.splits)


lemma download_binary_miss:
  assumes "get_binary_name h = Inr (ps, bn)"
    and "get_binary_path h = Inr d"
    and "mkdir_parents h (fs w) d = (Inr (), t1)"
    and "have_correct_version h t1 (joinpath d bn) (joinpath d ''version'') = Inr False"
  shows "download_binary h w =
           download_binary_fetch h (w\<lparr>fs := t1\<rparr>) ps (joinpath d bn) (joinpath d ''version'')"
  using assms by (simp add: download_binary_def Let_def)

lemma download_binary_hit:
  assumes "get_binary_name h = Inr (ps, bn)"
    and "get_binary_path h = Inr d"
    and "mkdir_parents h (fs w) d = (Inr (), t1)"
    and "have_correct_version h t1 (joinpath d bn) (joinpath d ''version'') = Inr True"
  shows "download_binary h w = (Inr (joinpath d bn), w\<lparr>fs := t1\<rparr>)"
  using assms by (simp add: download_binary_def Let_def)

lemma download_binary_again:
  assumes name: "get_binary_name h = Inr (ps, bn)"
    and dir: "get_binary_path h = Inr d"
    and d: "is_dir (fs w) d"
    and hit: "have_correct_version h (fs w) (joinpath d bn) (joinpath d ''version'') = Inr True"
  shows "download_binary h w = (Inr (joinpath d bn), w)"
proof -
  from d have "mkdir_parents h (fs w) d = (Inr (), fs w)"
    by (rule mkdir_parents_is_dir)
  from download_binary_hit [OF name dir this hit] show ?thesis by simp
qed

lemma download_binary_spawned: "spawned (snd (download_binary h w)) = spawned w"
  by (auto simp add: download_binary_def Let_def fetch_spawned
      split: sum.splits prod.splits bool.splits)

lemma download_binary_Inr:
  assumes r: "download_binary h w = (Inr p, w1)"
    and name: "get_binary_name h = Inr (ps, bn)"
    and dir: "get_binary_path h = Inr d"
  shows "p = joinpath d bn \<and>
         is_dir (fs w1) d \<and>
         have_correct_version h (fs w1) (joinpath d bn) (joinpath d ''version'') = Inr True \<and>
         net_log w1 = net_log w @
           (if have_correct_version h (fs w) (joinpath d bn) (joinpath d ''version'') = Inr True
            then [] else [asset_url ps])"
proof -
  let ?bp = "joinpath d bn" and ?vf = "joinpath d ''version''"
  note ne = bin_paths [OF name, of d]
  from r name dir obtain t1 where mk: "mkdir_parents h (fs w) d = (Inr (), t1)"
    by (auto simp add: download_binary_def Let_def split: sum.splits prod.splits)
  from mkdir_parents_post [OF mk] have d1: "is_dir t1 d"
    and same: "t1 ?bp = fs w ?bp" "t1 ?vf = fs w ?vf"
    by (simp_all add: joinpath_def)
  from same have hcv: "have_correct_version h t1 ?bp ?vf = have_correct_version h (fs w) ?bp ?vf"
    by (rule have_correct_version_cong)
  show ?thesis
  proof (cases "have_correct_version h t1 ?bp ?vf = Inr True")
    case True
    from download_binary_hit [OF name dir mk True] r have "p = ?bp" "w1 = w\<lparr>fs := t1\<rparr>"
      by simp_all
    with True hcv d1 show ?thesis by simp
  next
    case False
    with r name dir mk have miss: "have_correct_version h t1 ?bp ?vf = Inr False"
      by (auto simp add: download_binary_def Let_def split: sum.splits bool.splits)
    from download_binary_miss [OF name dir mk miss] r
    have f: "download_binary_fetch h (w\<lparr>fs := t1\<rparr>) ps ?bp ?vf = (Inr p, w1)" by simp
    from fetch_Inr [OF f ne(1)] obtain body m mv where
      p: "p = ?bp" and w1: "fs w1 = t1(?bp \<mapsto> File (Bytes body) m, ?vf \<mapsto> File (Text version) mv)"
      and nl: "net_log w1 = net_log w @ [asset_url ps]"
      by auto
    from w1 d1 ne have "is_dir (fs w1) d" by (simp add: is_dir_def)
    moreover from w1 have_correct_version_written [OF ne(1)]
    have "have_correct_version h (fs w1) ?bp ?vf = Inr True" by simp
    ultimately show ?thesis using p nl miss hcv by simp
  qed
qed

lemma download_binary_net_log_miss:
  assumes name: "get_binary_name h = Inr (ps, bn)"
    and dir: "get_binary_path h = Inr d"
    and mk: "mkdir_parents h (fs w) d = (Inr (), t1)"
    and miss: "have_correct_version h t1 (joinpath d bn) (joinpath d ''version'') = Inr False"
  shows "net_log (snd (download_binary h w)) = net_log w @ [asset_url ps]"
  using download_binary_miss [OF name dir mk miss] by (simp add: fetch_net_log)

lemma fetch_Inr_mode:
  assumes r: "download_binary_fetch h w ps bp vf = (Inr p, w1)" and ne: "bp \<noteq> vf"
  shows "\<exists>w2 body m.
           urlretrieve h (w\<lparr>stderr := stderr w @ [downloading_msg ps]\<rparr>) (asset_url ps) bp =
             (Inr (), w2) \<and>
           fs w2 bp = Some (File (Bytes body) m) \<and>
           fs w1 bp = Some (File (Bytes body) (if system h = ''Windows'' then m else m OR 73))"
proof -
  let ?w0 = "w\<lparr>stderr := stderr w @ [downloading_msg ps]\<rparr>"
  from r obtain w2 where
    u: "urlretrieve h ?w0 (asset_url ps) bp = (Inr (), w2)"
    by (auto simp add: fetch_unfold split: prod.splits sum.splits if_splits)
  from urlretrieve_Inr [OF u] obtain body m where
    w2: "fs w2 bp = Some (File (Bytes body) m)"
    by auto
  from r u obtain t3 t4 where
    t3: "(if system h \<noteq> ''Windows'' then make_executable h (fs w2) bp else Inr (fs w2)) = Inr t3"
    and t4: "write_file h t3 vf (Text version) = Inr t4"
    and w1: "fs w1 = t4"
    by (auto simp add: fetch_unfold split: sum.splits)
  from t3 w2 have "t3 bp = Some (File (Bytes body) (if system h = ''Windows'' then m else m OR 73))"
    by (cases "system h = ''Windows''") (auto dest: make_executable_Inr)
  moreover from write_file_frame [OF t4, of bp] ne have "t4 bp = t3 bp" by simp
  ultimately show ?thesis using u w2 w1 by simp
qed

section \<open>The concrete hosts\<close>

lemma stub_name: "get_binary_name (stub_host env nt ch) = Inr (''linux-amd64'', ''gcop-rs'')"
  by (simp add: get_binary_name_def stub_host_def lower_def lower_char_def)

lemma stub_path: "get_binary_path (stub_host Map.empty nt ch) = Inr cache_dir"
  by (simp add: get_binary_path_def Path_home_def stub_host_def joinpath_def cache_dir_def)

lemma stub_url: "asset_url ''linux-amd64'' = linux_url"
  by (simp add: asset_url_def GITHUB_RELEASE_URL_def version_def linux_url_def)

lemma stub_paths:
  "joinpath cache_dir ''gcop-rs'' = binary_file"
  "joinpath cache_dir ''version'' = version_marker"
  by (simp_all add: cache_dir_def joinpath_def binary_file_def version_marker_def)

lemma stub_fields:
  "net (stub_host env nt ch) = nt" "child (stub_host env nt ch) = ch"
  "umask (stub_host env nt ch) = 18" "system (stub_host env nt ch) = ''Linux''"
  "argv (stub_host env nt ch) = [''gcop-rs'', ''commit'', ''--yes'']"
  "denied (stub_host env nt ch) = (\<lambda>a p. False)"
  "written_perm (stub_host env nt ch) = unprivileged_write"
  "environ (stub_host env nt ch) = env"
  by (simp_all add: stub_host_def)

lemma stub_cmd:
  "path_str (stub_host env nt ch) binary_file = ''/home/dev/.cache/gcop-rs/bin/gcop-rs''"
  by (simp add: stub_host_def posix_str_def binary_file_def)

lemma cached_fs_at:
  "cached_fs mode b m cache_dir = Some (Dir 493)"
  "cached_fs mode b m binary_file = Some (File (Bytes b) mode)"
  "cached_fs mode b m version_marker = Some (File (Text m) 420)"
  by (simp_all add: cached_fs_def cache_dir_def binary_file_def version_marker_def)

lemma cached_fs_wf: "wf_fs (cached_fs mode b m)"
  by (auto simp add: wf_fs_def cached_fs_def is_dir_def split: if_splits)

lemma cached_fs_check:
  "have_correct_version h (cached_fs mode b m) binary_file version_marker =
     Inr (strip m = version)"
  by (simp add: have_correct_version_def exists_path_def read_text_def cached_fs_at)

lemma strip_examples:
  "strip ''0.4.2'' = version" "strip ''0.4.2\<newline>'' = version" "strip ''0.4.1'' \<noteq> version"
  "''0.4.2\<newline>'' \<noteq> version"
  by (simp_all add: strip_def is_space_def version_def)

lemma cached_mkdir:
  "mkdir_parents h (cached_fs mode b m) cache_dir = (Inr (), cached_fs mode b m)"
  by (simp add: mkdir_parents_is_dir is_dir_def cached_fs_at)

lemma cold_mkdir:
  "\<forall>q. \<not> denied h Create q \<Longrightarrow> \<exists>t'. mkdir_parents h Map.empty d = (Inr (), t')"
  by (rule mkdir_parents_succeeds) (simp_all add: is_file_def)

lemma cached_download:
  "strip m = version \<Longrightarrow>
   download_binary (stub_host Map.empty nt ch) (cached_world b m) =
     (Inr binary_file, cached_world b m)"
  using download_binary_again [of "stub_host Map.empty nt ch" _ _ cache_dir "cached_world b m",
      OF stub_name stub_path]
  by (simp add: stub_paths cached_world_def is_dir_def cached_fs_at cached_fs_check)

lemma win_name: "get_binary_name (win_host env nt) = Inr (''windows-amd64.exe'', ''gcop-rs.exe'')"
  by (simp add: get_binary_name_def win_host_def lower_def lower_char_def)

lemma win_path:
  "get_binary_path (win_host Map.empty nt) =
     Inr [''C:'', ''Users'', ''dev'', ''AppData'', ''Local'', ''gcop-rs'', ''bin'']"
  by (simp add: get_binary_path_def Path_home_def win_host_def joinpath_def)

lemma win_fields:
  "net (win_host env nt) = nt" "umask (win_host env nt) = 0"
  "system (win_host env nt) = ''Windows''" "environ (win_host env nt) = env"
  "home (win_host env nt) = Some [''C:'', ''Users'', ''dev'']"
  "path_of (win_host env nt) = windows_path_of"
  "denied (win_host env nt) = (\<lambda>a p. False)"
  by (simp_all add: win_host_def)

lemma cold_download:
  "\<exists>w1. download_binary (stub_host Map.empty stub_net ch) cold_world = (Inr binary_file, w1)"
proof -
  let ?h = "stub_host Map.empty stub_net ch"
  obtain t1 where mk: "mkdir_parents ?h (fs cold_world) cache_dir = (Inr (), t1)"
    using cold_mkdir [of ?h cache_dir] by (auto simp add: cold_world_def stub_fields)
  from mkdir_parents_post [OF mk] have d1: "is_dir t1 cache_dir"
    and same: "t1 binary_file = None" "t1 version_marker = None"
    by (simp_all add: cold_world_def cache_dir_def binary_file_def version_marker_def)
  have miss: "have_correct_version ?h t1 (joinpath cache_dir ''gcop-rs'')
      (joinpath cache_dir ''version'') = Inr False"
    using same by (simp add: stub_paths have_correct_version_def exists_path_def)
  have net: "net ?h (asset_url ''linux-amd64'') = Served ''ELF''"
    by (simp add: stub_fields stub_url stub_net_def)
  have "fst (download_binary_fetch ?h (cold_world\<lparr>fs := t1\<rparr>) ''linux-amd64''
      binary_file version_marker) = Inr binary_file"
    using same d1
    by (intro fetch_served [OF net])
      (simp_all add: is_dir_def stub_fields binary_file_def version_marker_def cache_dir_def)
  with download_binary_miss [OF stub_name stub_path mk miss]
  have "fst (download_binary ?h cold_world) = Inr binary_file"
    by (simp add: stub_paths)
  then show ?thesis by (cases "download_binary ?h cold_world") auto
qed

section \<open>The platform resolver\<close>

text \<open>
  Claim C1. \<open>get_binary_name\<close> decides on the lower-cased machine and system names.
  A machine name other than x86_64, amd64, arm64 and aarch64 raises the
  unsupported-architecture error, whatever the system. Otherwise x86_64 and amd64 give
  the architecture amd64, arm64 and aarch64 give arm64, and the system decides: darwin
  gives the suffix macos-ARCH and the file name gcop-rs, linux gives linux-ARCH and
  gcop-rs, windows gives windows-aarch64.exe for arm64 and windows-amd64.exe for amd64,
  with the file name gcop-rs.exe, and any other system raises the
  unsupported-operating-system error. In particular Darwin on aarch64 resolves to
  macos-arm64 and gcop-rs, and Windows on AMD64 to windows-amd64.exe and gcop-rs.exe.
\<close>

theorem get_binary_name_table:
  "(lower (machine h) \<notin> {''x86_64'', ''amd64'', ''arm64'', ''aarch64''} \<longrightarrow>
      get_binary_name h =
        Inl (RuntimeError (''Unsupported architecture: '' @ lower (machine h)))) \<and>
   (lower (machine h) \<in> {''x86_64'', ''amd64''} \<longrightarrow>
      (lower (system h) = ''darwin'' \<longrightarrow>
         get_binary_name h = Inr (''macos-amd64'', ''gcop-rs'')) \<and>
      (lower (system h) = ''linux'' \<longrightarrow>
         get_binary_name h = Inr (''linux-amd64'', ''gcop-rs'')) \<and>
      (lower (system h) = ''windows'' \<longrightarrow>
         get_binary_name h = Inr (''windows-amd64.exe'', ''gcop-rs.exe''))) \<and>
   (lower (machine h) \<in> {''arm64'', ''aarch64''} \<longrightarrow>
      (lower (system h) = ''darwin'' \<longrightarrow>
         get_binary_name h = Inr (''macos-arm64'', ''gcop-rs'')) \<and>
      (lower (system h) = ''linux'' \<longrightarrow>
         get_binary_name h = Inr (''linux-arm64'', ''gcop-rs'')) \<and>
      (lower (system h) = ''windows'' \<longrightarrow>
         get_binary_name h = Inr (''windows-aarch64.exe'', ''gcop-rs.exe''))) \<and>
   (lower (machine h) \<in> {''x86_64'', ''amd64'', ''arm64'', ''aarch64''} \<longrightarrow>
    lower (system h) \<notin> {''darwin'', ''linux'', ''windows''} \<longrightarrow>
      get_binary_name h =
        Inl (RuntimeError (''Unsupported operating system: '' @ lower (system h)))) \<and>
   (system h = ''Darwin'' \<longrightarrow> machine h = ''aarch64'' \<longrightarrow>
      get_binary_name h = Inr (''macos-arm64'', ''gcop-rs'')) \<and>
   (system h = ''Windows'' \<longrightarrow> machine h = ''AMD64'' \<longrightarrow>
      get_binary_name h = Inr (''windows-amd64.exe'', ''gcop-rs.exe''))"
proof -
  have d: "lower ''Darwin'' = ''darwin''" and a: "lower ''aarch64'' = ''aarch64''"
    and w: "lower ''Windows'' = ''windows''" and m: "lower ''AMD64'' = ''amd64''"
    by (simp_all add: lower_def lower_char_def)
  show ?thesis
    by (auto simp add: get_binary_name_def Let_def d a w m)
qed

theorem get_binary_name_table_witness:
  "system mac_host = ''Darwin'' \<and> machine mac_host = ''aarch64'' \<and>
   get_binary_name mac_host = Inr (''macos-arm64'', ''gcop-rs'') \<and>
   system (win_host Map.empty no_net) = ''Windows'' \<and> machine (win_host Map.empty no_net) = ''AMD64'' \<and>
   lower (machine (win_host Map.empty no_net)) \<in> {''x86_64'', ''amd64''} \<and>
   lower (system (win_host Map.empty no_net)) = ''windows'' \<and>
   get_binary_name (win_host Map.empty no_net) = Inr (''windows-amd64.exe'', ''gcop-rs.exe'')"
proof -
  have m: "system mac_host = ''Darwin'' \<and> machine mac_host = ''aarch64''"
    by (simp add: mac_host_def)
  have w: "system (win_host Map.empty no_net) = ''Windows'' \<and> machine (win_host Map.empty no_net) = ''AMD64''"
    by (simp add: win_host_def)
  have l: "lower ''Windows'' = ''windows''" "lower ''AMD64'' = ''amd64''"
    by (simp_all add: lower_def lower_char_def)
  from m w l get_binary_name_table [of mac_host] get_binary_name_table [of "win_host Map.empty no_net"]
  show ?thesis by simp
qed

section \<open>The dispatcher\<close>

text \<open>
  Claim C4. When the fetcher returns the path of the binary, \<open>main\<close> runs one child
  process: the binary, followed by the arguments the wrapper received after its own
  name, unchanged and in the same order. When that child exits with a return code,
  \<open>main\<close> returns the same code. A child that exits with 7 makes the wrapper return 7.
\<close>

theorem main_exit_code_passthrough:
  assumes "download_binary h w = (Inr binary_path, w1)"
    and "argv h = prog # args"
    and "child h (path_str h binary_path # args) = Exited returncode"
  shows "main h w =
           (Inr returncode, w1\<lparr>spawned := spawned w @ [path_str h binary_path # args]\<rparr>)"
  using assms download_binary_spawned [of h w]
  by (simp add: main_def subprocess_run_def)

theorem main_exit_code_passthrough_witness:
  "download_binary (stub_host Map.empty stub_net (\<lambda>cmd. Exited 7)) (cached_world ''ELF'' ''0.4.2'') =
     (Inr binary_file, cached_world ''ELF'' ''0.4.2'') \<and>
   argv (stub_host Map.empty stub_net (\<lambda>cmd. Exited 7)) = [''gcop-rs'', ''commit'', ''--yes''] \<and>
   child (stub_host Map.empty stub_net (\<lambda>cmd. Exited 7))
     [''/home/dev/.cache/gcop-rs/bin/gcop-rs'', ''commit'', ''--yes''] = Exited 7 \<and>
   fst (main (stub_host Map.empty stub_net (\<lambda>cmd. Exited 7)) (cached_world ''ELF'' ''0.4.2'')) = Inr 7 \<and>
   spawned (snd (main (stub_host Map.empty stub_net (\<lambda>cmd. Exited 7)) (cached_world ''ELF'' ''0.4.2''))) =
     [[''/home/dev/.cache/gcop-rs/bin/gcop-rs'', ''commit'', ''--yes'']]"
proof -
  let ?h = "stub_host Map.empty stub_net (\<lambda>cmd. Exited 7)"
  have d: "download_binary ?h (cached_world ''ELF'' ''0.4.2'') =
     (Inr binary_file, cached_world ''ELF'' ''0.4.2'')"
    by (simp add: cached_download strip_examples)
  have a: "argv ?h = ''gcop-rs'' # [''commit'', ''--yes'']"
    by (simp add: stub_fields)
  have c: "child ?h (path_str ?h binary_file # [''commit'', ''--yes'']) = Exited 7"
    by (simp add: stub_fields)
  from main_exit_code_passthrough [OF d a c] d a c show ?thesis
    by (simp add: stub_cmd cached_world_def)
qed

text \<open>
  Claim C5. When the run of the child is interrupted by the operator, \<open>main\<close> returns
  130, whatever status the child had reported by then.
\<close>

theorem main_interrupted_130:
  assumes "download_binary h w = (Inr binary_path, w1)"
    and "child h (path_str h binary_path # drop 1 (argv h)) = Interrupted reported"
  shows "main h w =
           (Inr 130, w1\<lparr>spawned := spawned w @ [path_str h binary_path # drop 1 (argv h)]\<rparr>)"
  using assms download_binary_spawned [of h w]
  by (simp add: main_def subprocess_run_def)

theorem main_interrupted_130_witness:
  "download_binary (stub_host Map.empty stub_net (\<lambda>cmd. Interrupted (Some 7)))
       (cached_world ''ELF'' ''0.4.2'') =
     (Inr binary_file, cached_world ''ELF'' ''0.4.2'') \<and>
   child (stub_host Map.empty stub_net (\<lambda>cmd. Interrupted (Some 7)))
     [''/home/dev/.cache/gcop-rs/bin/gcop-rs'', ''commit'', ''--yes''] = Interrupted (Some 7) \<and>
   fst (main (stub_host Map.empty stub_net (\<lambda>cmd. Interrupted (Some 7)))
       (cached_world ''ELF'' ''0.4.2'')) = Inr 130"
proof -
  let ?h = "stub_host Map.empty stub_net (\<lambda>cmd. Interrupted (Some 7))"
  have d: "download_binary ?h (cached_world ''ELF'' ''0.4.2'') =
     (Inr binary_file, cached_world ''ELF'' ''0.4.2'')"
    by (simp add: cached_download strip_examples)
  have c: "child ?h (path_str ?h binary_file # drop 1 (argv ?h)) = Interrupted (Some 7)"
    by (simp add: stub_fields)
  from main_interrupted_130 [OF d c] d c show ?thesis
    by (simp add: stub_cmd stub_fields)
qed

text \<open>
  Claim C6. When the fetcher fails with an ordinary exception, \<open>main\<close> prints the line
  \<^verbatim>\<open>Error: \<close> followed by its message on the diagnostic stream and returns 1, and no
  child process has been started. A transfer that fails with an ordinary exception
  makes the fetcher fail with the runtime error that carries the URL and the message of
  the cause; the URL has been retrieved once, and \<open>main\<close> returns 1.
\<close>

theorem main_fetch_failure:
  "(\<forall>e w1. download_binary h w = (Inl e, w1) \<and> is_Exception e \<longrightarrow>
      main h w = (Inr 1, w1\<lparr>stderr := stderr w1 @ [''Error: '' @ str_exn e]\<rparr>) \<and>
      spawned (snd (main h w)) = spawned w) \<and>
   (\<forall>ps bn bin_dir t1 e w2.
      get_binary_name h = Inr (ps, bn) \<and>
      get_binary_path h = Inr bin_dir \<and>
      mkdir_parents h (fs w) bin_dir = (Inr (), t1) \<and>
      have_correct_version h t1 (joinpath bin_dir bn) (joinpath bin_dir ''version'') =
        Inr False \<and>
      urlretrieve h (w\<lparr>fs := t1, stderr := stderr w @ [downloading_msg ps]\<rparr>) (asset_url ps)
        (joinpath bin_dir bn) = (Inl e, w2) \<and>
      is_Exception e \<longrightarrow>
      download_binary h w =
        (Inl (RuntimeError
           (''Failed to download binary from '' @ asset_url ps @ '': '' @ str_exn e)), w2) \<and>
      net_log w2 = net_log w @ [asset_url ps] \<and>
      fst (main h w) = Inr 1)"
proof (intro conjI allI impI)
  fix e w1 assume a: "download_binary h w = (Inl e, w1) \<and> is_Exception e"
  then show "main h w = (Inr 1, w1\<lparr>stderr := stderr w1 @ [''Error: '' @ str_exn e]\<rparr>)"
    by (simp add: main_def)
  with a download_binary_spawned [of h w] show "spawned (snd (main h w)) = spawned w"
    by simp
next
  fix ps bn bin_dir t1 e w2
  let ?bp = "joinpath bin_dir bn"
  assume a: "get_binary_name h = Inr (ps, bn) \<and>
      get_binary_path h = Inr bin_dir \<and>
      mkdir_parents h (fs w) bin_dir = (Inr (), t1) \<and>
      have_correct_version h t1 ?bp (joinpath bin_dir ''version'') = Inr False \<and>
      urlretrieve h (w\<lparr>fs := t1, stderr := stderr w @ [downloading_msg ps]\<rparr>) (asset_url ps)
        ?bp = (Inl e, w2) \<and>
      is_Exception e"
  then have d: "download_binary h w =
      download_binary_fetch h (w\<lparr>fs := t1\<rparr>) ps ?bp (joinpath bin_dir ''version'')"
    by (simp add: download_binary_miss)
  with a show r: "download_binary h w =
        (Inl (RuntimeError
           (''Failed to download binary from '' @ asset_url ps @ '': '' @ str_exn e)), w2)"
    by (simp add: fetch_unfold)
  from a urlretrieve_net_log [of h "w\<lparr>fs := t1, stderr := stderr w @ [downloading_msg ps]\<rparr>"
      "asset_url ps" ?bp]
  show "net_log w2 = net_log w @ [asset_url ps]" by simp
  from r show "fst (main h w) = Inr 1" by (simp add: main_def)
qed

theorem main_fetch_failure_witness:
  "fst (download_binary (stub_host Map.empty no_net (\<lambda>cmd. Exited 0)) (cached_world ''old'' ''0.4.1'')) =
     Inl (RuntimeError (''Failed to download binary from '' @ linux_url @
            '': Name or service not known'')) \<and>
   is_Exception (RuntimeError (''Failed to download binary from '' @ linux_url @
            '': Name or service not known'')) \<and>
   fst (main (stub_host Map.empty no_net (\<lambda>cmd. Exited 0)) (cached_world ''old'' ''0.4.1'')) = Inr 1 \<and>
   stderr (snd (main (stub_host Map.empty no_net (\<lambda>cmd. Exited 0)) (cached_world ''old'' ''0.4.1''))) =
     [downloading_msg ''linux-amd64'',
      ''Error: Failed to download binary from '' @ linux_url @ '': Name or service not known''] \<and>
   net_log (snd (main (stub_host Map.empty no_net (\<lambda>cmd. Exited 0)) (cached_world ''old'' ''0.4.1''))) =
     [linux_url] \<and>
   spawned (snd (main (stub_host Map.empty no_net (\<lambda>cmd. Exited 0)) (cached_world ''old'' ''0.4.1''))) = []"
proof -
  let ?h = "stub_host Map.empty no_net (\<lambda>cmd. Exited 0)"
  let ?w = "cached_world ''old'' ''0.4.1''"
  let ?e = "RuntimeError (''Failed to download binary from '' @ linux_url @
            '': Name or service not known'')"
  have mk: "mkdir_parents ?h (fs ?w) cache_dir = (Inr (), fs ?w)"
    by (simp add: cached_world_def cached_mkdir)
  have miss: "have_correct_version ?h (fs ?w) (joinpath cache_dir ''gcop-rs'')
      (joinpath cache_dir ''version'') = Inr False"
    by (simp add: stub_paths cached_world_def cached_fs_check strip_examples)
  have "net ?h (asset_url ''linux-amd64'') = Refused (OSError ''Name or service not known'')"
    by (simp add: stub_fields no_net_def)
  from fetch_failed [OF this, of ?w binary_file version_marker]
    download_binary_miss [OF stub_name stub_path mk miss]
  have d: "download_binary ?h ?w =
      (Inl ?e, ?w\<lparr>net_log := [linux_url], stderr := [downloading_msg ''linux-amd64'']\<rparr>)"
    by (simp add: stub_paths stub_url cached_world_def)
  have e: "is_Exception ?e" by simp
  from main_fetch_failure [of ?h ?w] d e
  have "main ?h ?w = (Inr 1, ?w\<lparr>net_log := [linux_url],
      stderr := [downloading_msg ''linux-amd64'', ''Error: '' @ str_exn ?e]\<rparr>)"
    by simp
  with d show ?thesis by (simp add: cached_world_def)
qed

text \<open>
  Claim C9. An interrupt that leaves the fetcher leaves \<open>main\<close> as well: \<open>main\<close>
  neither returns 1 nor 130, it prints no error line and starts no child. This is what
  happens when the operator interrupts the transfer.
\<close>

theorem main_interrupt_during_fetch:
  "(\<forall>w1. download_binary h w = (Inl KeyboardInterrupt, w1) \<longrightarrow>
      main h w = (Inl KeyboardInterrupt, w1)) \<and>
   (\<forall>ps bn bin_dir t1.
      get_binary_name h = Inr (ps, bn) \<and>
      get_binary_path h = Inr bin_dir \<and>
      mkdir_parents h (fs w) bin_dir = (Inr (), t1) \<and>
      have_correct_version h t1 (joinpath bin_dir bn) (joinpath bin_dir ''version'') =
        Inr False \<and>
      net h (asset_url ps) = Refused KeyboardInterrupt \<longrightarrow>
      main h w =
        (Inl KeyboardInterrupt,
         w\<lparr>fs := t1, net_log := net_log w @ [asset_url ps],
            stderr := stderr w @ [downloading_msg ps]\<rparr>))"
proof (intro conjI allI impI)
  fix w1 assume "download_binary h w = (Inl KeyboardInterrupt, w1)"
  then show "main h w = (Inl KeyboardInterrupt, w1)"
    by (simp add: main_def)
next
  fix ps bn bin_dir t1
  let ?bp = "joinpath bin_dir bn"
  let ?vf = "joinpath bin_dir ''version''"
  assume a: "get_binary_name h = Inr (ps, bn) \<and>
      get_binary_path h = Inr bin_dir \<and>
      mkdir_parents h (fs w) bin_dir = (Inr (), t1) \<and>
      have_correct_version h t1 ?bp ?vf = Inr False \<and>
      net h (asset_url ps) = Refused KeyboardInterrupt"
  then have "download_binary h w = download_binary_fetch h (w\<lparr>fs := t1\<rparr>) ps ?bp ?vf"
    by (simp add: download_binary_miss)
  moreover from a have "net h (asset_url ps) = Refused KeyboardInterrupt" by simp
  from fetch_failed [OF this, of "w\<lparr>fs := t1\<rparr>" ?bp ?vf]
  have "download_binary_fetch h (w\<lparr>fs := t1\<rparr>) ps ?bp ?vf =
      (Inl KeyboardInterrupt,
       w\<lparr>fs := t1, net_log := net_log w @ [asset_url ps],
          stderr := stderr w @ [downloading_msg ps]\<rparr>)"
    by simp
  ultimately show "main h w =
        (Inl KeyboardInterrupt,
         w\<lparr>fs := t1, net_log := net_log w @ [asset_url ps],
            stderr := stderr w @ [downloading_msg ps]\<rparr>)"
    by (simp add: main_def)
qed

theorem main_interrupt_during_fetch_witness:
  "get_binary_name (stub_host Map.empty (\<lambda>url. Refused KeyboardInterrupt) (\<lambda>cmd. Exited 0)) =
     Inr (''linux-amd64'', ''gcop-rs'') \<and>
   net (stub_host Map.empty (\<lambda>url. Refused KeyboardInterrupt) (\<lambda>cmd. Exited 0))
     (asset_url ''linux-amd64'') = Refused KeyboardInterrupt \<and>
   fst (main (stub_host Map.empty (\<lambda>url. Refused KeyboardInterrupt) (\<lambda>cmd. Exited 0))
     (cached_world ''old'' ''0.4.1'')) = Inl KeyboardInterrupt \<and>
   stderr (snd (main (stub_host Map.empty (\<lambda>url. Refused KeyboardInterrupt) (\<lambda>cmd. Exited 0))
     (cached_world ''old'' ''0.4.1''))) = [downloading_msg ''linux-amd64''] \<and>
   spawned (snd (main (stub_host Map.empty (\<lambda>url. Refused KeyboardInterrupt) (\<lambda>cmd. Exited 0))
     (cached_world ''old'' ''0.4.1''))) = []"
proof -
  let ?h = "stub_host Map.empty (\<lambda>url. Refused KeyboardInterrupt) (\<lambda>cmd. Exited 0)"
  let ?w = "cached_world ''old'' ''0.4.1''"
  have mk: "mkdir_parents ?h (fs ?w) cache_dir = (Inr (), fs ?w)"
    by (simp add: cached_world_def cached_mkdir)
  have miss: "have_correct_version ?h (fs ?w) (joinpath cache_dir ''gcop-rs'')
      (joinpath cache_dir ''version'') = Inr False"
    by (simp add: stub_paths cached_world_def cached_fs_check strip_examples)
  have n: "net ?h (asset_url ''linux-amd64'') = Refused KeyboardInterrupt"
    by (simp add: stub_fields)
  from main_interrupt_during_fetch [of ?h ?w] stub_name [of Map.empty _ _]
    stub_path [of "\<lambda>url. Refused KeyboardInterrupt" "\<lambda>cmd. Exited 0"] mk miss n
  have "main ?h ?w =
        (Inl KeyboardInterrupt,
         ?w\<lparr>fs := fs ?w, net_log := net_log ?w @ [asset_url ''linux-amd64''],
            stderr := stderr ?w @ [downloading_msg ''linux-amd64'']\<rparr>)"
    by blast
  with n stub_name [of Map.empty "\<lambda>url. Refused KeyboardInterrupt" "\<lambda>cmd. Exited 0"]
  show ?thesis by (simp add: cached_world_def)
qed

section \<open>The fetcher\<close>

text \<open>
  Claim C2. On a supported platform whose cache directory can be named, and a
  well-formed file system, when the cached binary exists and the version marker, read
  and stripped, is the expected version, \<open>download_binary\<close> returns the path of the
  binary and leaves the world as it is: nothing is retrieved. Whenever a call of
  \<open>download_binary\<close> returns a path, the next call in the world it leaves returns the
  same path and changes nothing, so it is a cache hit. When the first of the two calls
  did not find the correct version, the two calls together retrieve exactly one URL,
  the asset's.
\<close>

theorem download_binary_cache_hit:
  assumes name: "get_binary_name h = Inr (platform_str, binary_name)"
    and dir: "get_binary_path h = Inr bin_dir"
  shows "(wf_fs (fs w) \<and>
          exists_path (fs w) (joinpath bin_dir binary_name) \<and>
          read_text h (fs w) (joinpath bin_dir ''version'') = Inr marker \<and>
          strip marker = version \<longrightarrow>
            download_binary h w = (Inr (joinpath bin_dir binary_name), w)) \<and>
         (\<forall>p w1. download_binary h w = (Inr p, w1) \<longrightarrow>
            download_binary h w1 = (Inr p, w1)) \<and>
         (\<forall>p w1 w2 r. download_binary h w = (Inr p, w1) \<and>
            have_correct_version h (fs w) (joinpath bin_dir binary_name)
              (joinpath bin_dir ''version'') \<noteq> Inr True \<and>
            download_binary h w1 = (r, w2) \<longrightarrow>
            net_log w2 = net_log w @ [asset_url platform_str])"
proof (intro conjI allI impI)
  assume a: "wf_fs (fs w) \<and> exists_path (fs w) (joinpath bin_dir binary_name) \<and>
     read_text h (fs w) (joinpath bin_dir ''version'') = Inr marker \<and> strip marker = version"
  then have "is_dir (fs w) bin_dir" by (blast intro: wf_fs_child_dir)
  moreover from a have "have_correct_version h (fs w) (joinpath bin_dir binary_name)
     (joinpath bin_dir ''version'') = Inr True"
    by (blast intro: have_correct_version_True)
  ultimately show "download_binary h w = (Inr (joinpath bin_dir binary_name), w)"
    by (rule download_binary_again [OF name dir])
next
  fix p w1 assume r: "download_binary h w = (Inr p, w1)"
  from download_binary_Inr [OF r name dir] download_binary_again [OF name dir, of w1]
  show "download_binary h w1 = (Inr p, w1)" by simp
next
  fix p w1 w2 r
  assume a: "download_binary h w = (Inr p, w1) \<and>
            have_correct_version h (fs w) (joinpath bin_dir binary_name)
              (joinpath bin_dir ''version'') \<noteq> Inr True \<and>
            download_binary h w1 = (r, w2)"
  then have r: "download_binary h w = (Inr p, w1)" by simp
  from download_binary_Inr [OF r name dir] download_binary_again [OF name dir, of w1]
  have "download_binary h w1 = (Inr p, w1)" by simp
  with a have "w2 = w1" by simp
  with download_binary_Inr [OF r name dir] a
  show "net_log w2 = net_log w @ [asset_url platform_str]" by simp
qed

theorem download_binary_cache_hit_witness:
  "wf_fs (fs (cached_world ''ELF'' ''0.4.2\<newline>'')) \<and>
   exists_path (fs (cached_world ''ELF'' ''0.4.2\<newline>'')) binary_file \<and>
   read_text (stub_host Map.empty stub_net (\<lambda>cmd. Exited 0))
     (fs (cached_world ''ELF'' ''0.4.2\<newline>'')) version_marker = Inr ''0.4.2\<newline>'' \<and>
   strip ''0.4.2\<newline>'' = version \<and>
   download_binary (stub_host Map.empty stub_net (\<lambda>cmd. Exited 0)) (cached_world ''ELF'' ''0.4.2\<newline>'') =
     (Inr binary_file, cached_world ''ELF'' ''0.4.2\<newline>'') \<and>
   net_log (cached_world ''ELF'' ''0.4.2\<newline>'') = [] \<and>
   have_correct_version (stub_host Map.empty stub_net (\<lambda>cmd. Exited 0)) (fs cold_world)
     binary_file version_marker = Inr False \<and>
   fst (download_binary (stub_host Map.empty stub_net (\<lambda>cmd. Exited 0)) cold_world) =
     Inr binary_file \<and>
   fst (download_binary (stub_host Map.empty stub_net (\<lambda>cmd. Exited 0))
          (snd (download_binary (stub_host Map.empty stub_net (\<lambda>cmd. Exited 0)) cold_world))) =
     Inr binary_file \<and>
   net_log (snd (download_binary (stub_host Map.empty stub_net (\<lambda>cmd. Exited 0))
          (snd (download_binary (stub_host Map.empty stub_net (\<lambda>cmd. Exited 0)) cold_world)))) =
     [linux_url]"
proof -
  let ?h = "stub_host Map.empty stub_net (\<lambda>cmd. Exited 0)"
  let ?w = "cached_world ''ELF'' ''0.4.2\<newline>''"
  note c2 = download_binary_cache_hit [OF stub_name [of Map.empty stub_net "\<lambda>cmd. Exited 0"]
      stub_path [of stub_net "\<lambda>cmd. Exited 0"]]
  have pre: "wf_fs (fs ?w)" "exists_path (fs ?w) binary_file"
    "read_text ?h (fs ?w) version_marker = Inr ''0.4.2\<newline>''" "strip ''0.4.2\<newline>'' = version"
    by (simp_all add: cached_world_def cached_fs_wf exists_path_def read_text_def cached_fs_at
        strip_examples)
  with c2 [of ?w "''0.4.2\<newline>''", THEN conjunct1]
  have hit: "download_binary ?h ?w = (Inr binary_file, ?w)"
    by (simp add: stub_paths)
  have miss: "have_correct_version ?h (fs cold_world) binary_file version_marker = Inr False"
    by (simp add: cold_world_def have_correct_version_def exists_path_def)
  obtain w1 where first: "download_binary ?h cold_world = (Inr binary_file, w1)"
    using cold_download [of "\<lambda>cmd. Exited 0"] by auto
  obtain r w2 where second: "download_binary ?h w1 = (r, w2)"
    by (cases "download_binary ?h w1")
  from c2 [of cold_world "[]", THEN conjunct2, THEN conjunct1, rule_format, OF first]
  have again: "download_binary ?h w1 = (Inr binary_file, w1)" .
  have "download_binary ?h cold_world = (Inr binary_file, w1) \<and>
        have_correct_version ?h (fs cold_world) (joinpath cache_dir ''gcop-rs'')
          (joinpath cache_dir ''version'') \<noteq> Inr True \<and>
        download_binary ?h w1 = (r, w2)"
    using first miss second by (simp add: stub_paths)
  from c2 [of cold_world "[]", THEN conjunct2, THEN conjunct2, rule_format, OF this]
  have "net_log w2 = net_log cold_world @ [asset_url ''linux-amd64'']" .
  with pre hit miss first second again show ?thesis
    by (simp add: stub_url cold_world_def cached_world_def)
qed




text \<open>
  Claim C8. Take a call of \<open>download_binary\<close> that does not keep the cached binary
  and that returns. Then the transfer has returned and left a file at the path of the
  binary; let \<open>m\<close> be the mode of that file when the transfer is over, the mode that
  line 91 reads (it need not be the mode a file at that path had before the call: the
  system may clear bits of a file that is written). When the call is over, on a system
  other than Windows the file has the content the transfer left and the mode \<open>m\<close>
  with the three executable bits set (bit 6 for the owner, bit 3 for the group, bit 0
  for the others) and every other bit as in \<open>m\<close>; on Windows it has that content and
  the mode \<open>m\<close>.
\<close>

theorem download_binary_exec_bits:
  assumes name: "get_binary_name h = Inr (platform_str, binary_name)"
    and dir: "get_binary_path h = Inr bin_dir"
    and mk: "mkdir_parents h (fs w) bin_dir = (Inr (), fs1)"
    and miss: "have_correct_version h fs1 (joinpath bin_dir binary_name)
                 (joinpath bin_dir ''version'') = Inr False"
    and ok: "fst (download_binary h w) = Inr p"
  shows "\<exists>w2 c m.
           urlretrieve h (w\<lparr>fs := fs1, stderr := stderr w @ [downloading_msg platform_str]\<rparr>)
             (asset_url platform_str) (joinpath bin_dir binary_name) = (Inr (), w2) \<and>
           fs w2 (joinpath bin_dir binary_name) = Some (File c m) \<and>
           fs (snd (download_binary h w)) (joinpath bin_dir binary_name) =
             Some (File c
               (if system h = ''Windows'' then m
                else m OR word_of_int S_IXUSR OR word_of_int S_IXGRP OR word_of_int S_IXOTH)) \<and>
           (\<forall>n. bit (m OR word_of_int S_IXUSR OR word_of_int S_IXGRP OR word_of_int S_IXOTH) n =
                  (bit m n \<or> n \<in> {0, 3, 6}))"
proof -
  let ?bp = "joinpath bin_dir binary_name" and ?vf = "joinpath bin_dir ''version''"
  note ne = bin_paths [OF name, of bin_dir]
  note eq = download_binary_miss [OF name dir mk miss]
  from ok eq obtain w1 where
    r: "download_binary_fetch h (w\<lparr>fs := fs1\<rparr>) platform_str ?bp ?vf = (Inr p, w1)"
    by (cases "download_binary_fetch h (w\<lparr>fs := fs1\<rparr>) platform_str ?bp ?vf") auto
  from fetch_Inr_mode [OF r ne(1)] obtain w2 body m where
    u: "urlretrieve h (w\<lparr>fs := fs1, stderr := stderr w @ [downloading_msg platform_str]\<rparr>)
          (asset_url platform_str) ?bp = (Inr (), w2)"
    and w2: "fs w2 ?bp = Some (File (Bytes body) m)"
    and w1: "fs w1 ?bp = Some (File (Bytes body) (if system h = ''Windows'' then m else m OR 73))"
    by auto
  have w: "m OR word_of_int S_IXUSR OR word_of_int S_IXGRP OR word_of_int S_IXOTH = m OR 73"
    by (simp add: exec_words)
  have bits: "bit (m OR word_of_int S_IXUSR OR word_of_int S_IXGRP OR word_of_int S_IXOTH) n =
      (bit m n \<or> n \<in> {0, 3, 6})" for n
    unfolding w by (simp only: bit_or_iff bit_73)
  from w1 eq r have "fs (snd (download_binary h w)) ?bp =
      Some (File (Bytes body)
        (if system h = ''Windows'' then m
         else m OR word_of_int S_IXUSR OR word_of_int S_IXGRP OR word_of_int S_IXOTH))"
    unfolding w by simp
  with u w2 bits show ?thesis by blast
qed

theorem download_binary_exec_bits_witness:
  "fs (stale_world 2468) binary_file = Some (File (Bytes ''old'') 2468) \<and>
   fst (download_binary (stub_host Map.empty stub_net (\<lambda>cmd. Exited 0)) (stale_world 2468)) =
     Inr binary_file \<and>
   fs (snd (urlretrieve (stub_host Map.empty stub_net (\<lambda>cmd. Exited 0))
              ((stale_world 2468)\<lparr>stderr := [downloading_msg ''linux-amd64'']\<rparr>)
              linux_url binary_file)) binary_file = Some (File (Bytes ''ELF'') 420) \<and>
   fs (snd (download_binary (stub_host Map.empty stub_net (\<lambda>cmd. Exited 0))
              (stale_world 2468))) binary_file = Some (File (Bytes ''ELF'') 493) \<and>
   fs cold_world [''C:'', ''Users'', ''dev'', ''AppData'', ''Local'', ''gcop-rs'', ''bin'',
       ''gcop-rs.exe''] = None \<and>
   fst (download_binary (win_host Map.empty (\<lambda>url. Served ''MZ'')) cold_world) =
     Inr [''C:'', ''Users'', ''dev'', ''AppData'', ''Local'', ''gcop-rs'', ''bin'',
       ''gcop-rs.exe''] \<and>
   fs (snd (download_binary (win_host Map.empty (\<lambda>url. Served ''MZ'')) cold_world))
     [''C:'', ''Users'', ''dev'', ''AppData'', ''Local'', ''gcop-rs'', ''bin'', ''gcop-rs.exe''] =
     Some (File (Bytes ''MZ'') 438)"
proof -
  let ?h = "stub_host Map.empty stub_net (\<lambda>cmd. Exited 0)"
  let ?w = "stale_world 2468"
  let ?t = "cached_fs 2468 ''old'' ''0.4.1''"
  have mk: "mkdir_parents ?h (fs ?w) cache_dir = (Inr (), ?t)"
    by (simp add: stale_world_def cached_mkdir)
  have miss: "have_correct_version ?h ?t (joinpath cache_dir ''gcop-rs'')
      (joinpath cache_dir ''version'') = Inr False"
    by (simp add: stub_paths cached_fs_check strip_examples)
  have net: "net ?h (asset_url ''linux-amd64'') = Served ''ELF''"
    by (simp add: stub_fields stub_url stub_net_def)
  have "fst (download_binary_fetch ?h (?w\<lparr>fs := ?t\<rparr>) ''linux-amd64''
      binary_file version_marker) = Inr binary_file"
    by (intro fetch_served [OF net])
      (simp_all add: is_dir_def stub_fields cached_fs_at,
       simp_all add: binary_file_def version_marker_def cached_fs_def)
  with download_binary_miss [OF stub_name stub_path mk miss]
  have ok: "fst (download_binary ?h ?w) = Inr binary_file"
    by (simp add: stub_paths)
  have a: "(2468 AND NOT 2048 :: perm) = 420" "\<not> bit (2468 :: perm) 3"
    "(420 OR 64 OR 8 OR 1 :: perm) = 493"
    by simp_all
  have u: "urlretrieve ?h (?w\<lparr>stderr := [downloading_msg ''linux-amd64'']\<rparr>)
      linux_url binary_file =
      (Inr (), \<lparr>fs = ?t(binary_file \<mapsto> File (Bytes ''ELF'') 420), net_log = [linux_url],
         stderr = [downloading_msg ''linux-amd64''], spawned = []\<rparr>)"
    by (simp add: urlretrieve_def Let_def stale_world_def stub_fields stub_net_def
        write_file_def cached_fs_at unprivileged_write_def a)
  from download_binary_exec_bits [OF stub_name stub_path mk miss ok] u
  have linux: "fs (snd (download_binary ?h ?w)) binary_file = Some (File (Bytes ''ELF'') 493)"
    by (auto simp add: stub_paths stub_url stub_fields stale_world_def exec_words a)
  let ?g = "win_host Map.empty (\<lambda>url. Served ''MZ'')"
  let ?d = "[''C:'', ''Users'', ''dev'', ''AppData'', ''Local'', ''gcop-rs'', ''bin'']"
  let ?bp = "[''C:'', ''Users'', ''dev'', ''AppData'', ''Local'', ''gcop-rs'', ''bin'',
       ''gcop-rs.exe'']"
  obtain t1 where wmk: "mkdir_parents ?g (fs cold_world) ?d = (Inr (), t1)"
    using cold_mkdir [of ?g ?d] by (auto simp add: cold_world_def win_fields)
  from mkdir_parents_post [OF wmk] have d1: "is_dir t1 ?d"
    and same: "t1 (joinpath ?d ''gcop-rs.exe'') = None" "t1 (joinpath ?d ''version'') = None"
    by (simp_all add: cold_world_def joinpath_def)
  have wmiss: "have_correct_version ?g t1 (joinpath ?d ''gcop-rs.exe'')
      (joinpath ?d ''version'') = Inr False"
    using same by (simp add: have_correct_version_def exists_path_def)
  have wnet: "net ?g (asset_url ''windows-amd64.exe'') = Served ''MZ''"
    by (simp add: win_fields)
  have "fst (download_binary_fetch ?g (cold_world\<lparr>fs := t1\<rparr>) ''windows-amd64.exe''
      (joinpath ?d ''gcop-rs.exe'') (joinpath ?d ''version'')) = Inr (joinpath ?d ''gcop-rs.exe'')"
    using same d1
    by (intro fetch_served [OF wnet])
      (simp_all add: is_dir_def win_fields butlast_joinpath, simp add: joinpath_def)
  with download_binary_miss [OF win_name win_path wmk wmiss]
  have wok: "fst (download_binary ?g cold_world) = Inr ?bp"
    by (simp add: joinpath_def)
  have wu: "fs (snd (urlretrieve ?g
      (cold_world\<lparr>fs := t1, stderr := stderr cold_world @ [downloading_msg ''windows-amd64.exe'']\<rparr>)
      (asset_url ''windows-amd64.exe'') (joinpath ?d ''gcop-rs.exe''))) (joinpath ?d ''gcop-rs.exe'') =
      Some (File (Bytes ''MZ'') 438)"
    using same d1
    by (simp add: urlretrieve_def Let_def win_fields write_file_def butlast_joinpath)
  from download_binary_exec_bits [OF win_name win_path wmk wmiss wok] wu
  have windows: "fs (snd (download_binary ?g cold_world)) ?bp = Some (File (Bytes ''MZ'') 438)"
    by (auto simp add: win_fields joinpath_def)
  from ok u linux wok windows show ?thesis
    by (simp add: stale_world_def cached_fs_at cold_world_def)
qed

section \<open>The cache locator\<close>

text \<open>
  Claim C7. The override does not hold on every host. Line 60 is
  \<^verbatim>\<open>Path(os.environ.get("XDG_CACHE_HOME", Path.home() / ".cache"))\<close>: the default is
  evaluated before \<^verbatim>\<open>get\<close> looks the variable up. On a Linux host where
  \<^verbatim>\<open>XDG_CACHE_HOME\<close> is \<^verbatim>\<open>/var/cache\<close> and the home directory cannot be
  determined, \<open>get_binary_path\<close> raises instead of returning
  \<^verbatim>\<open>/var/cache/gcop-rs/bin\<close>; \<open>download_binary\<close> creates no directory, and \<open>main\<close>
  prints the error and returns 1. On the same host with a home directory the variable
  decides, and the home directory plays no part in the result.
\<close>

theorem get_binary_path_xdg_needs_home:
  "environ (homeless (stub_host [''XDG_CACHE_HOME'' \<mapsto> ''/var/cache''] stub_net (\<lambda>cmd. Exited 0)))
     ''XDG_CACHE_HOME'' = Some ''/var/cache'' \<and>
   get_binary_path
     (homeless (stub_host [''XDG_CACHE_HOME'' \<mapsto> ''/var/cache''] stub_net (\<lambda>cmd. Exited 0))) =
     Inl (RuntimeError ''Could not determine home directory.'') \<and>
   download_binary
     (homeless (stub_host [''XDG_CACHE_HOME'' \<mapsto> ''/var/cache''] stub_net (\<lambda>cmd. Exited 0)))
     cold_world =
     (Inl (RuntimeError ''Could not determine home directory.''), cold_world) \<and>
   main
     (homeless (stub_host [''XDG_CACHE_HOME'' \<mapsto> ''/var/cache''] stub_net (\<lambda>cmd. Exited 0)))
     cold_world =
     (Inr 1, cold_world\<lparr>stderr := [''Error: Could not determine home directory.'']\<rparr>) \<and>
   get_binary_path (stub_host [''XDG_CACHE_HOME'' \<mapsto> ''/var/cache''] stub_net (\<lambda>cmd. Exited 0)) =
     Inr [''var'', ''cache'', ''gcop-rs'', ''bin'']"
proof -
  let ?h = "stub_host [''XDG_CACHE_HOME'' \<mapsto> ''/var/cache''] stub_net (\<lambda>cmd. Exited 0)"
  have n: "get_binary_name (homeless ?h) = Inr (''linux-amd64'', ''gcop-rs'')"
    by (simp add: get_binary_name_def homeless_def stub_host_def lower_def lower_char_def)
  have p: "get_binary_path (homeless ?h) = Inl (RuntimeError ''Could not determine home directory.'')"
    by (simp add: get_binary_path_no_home homeless_def)
  from n p have d: "download_binary (homeless ?h) cold_world =
      (Inl (RuntimeError ''Could not determine home directory.''), cold_world)"
    by (simp add: download_binary_def)
  from d have m: "main (homeless ?h) cold_world =
      (Inr 1, cold_world\<lparr>stderr := [''Error: Could not determine home directory.'']\<rparr>)"
    by (simp add: main_def cold_world_def)
  have q: "get_binary_path ?h = Inr [''var'', ''cache'', ''gcop-rs'', ''bin'']"
    by (simp add: get_binary_path_def Path_home_def stub_host_def joinpath_def
        posix_path_of_def)
  from p d m q show ?thesis by (simp add: homeless_def stub_host_def)
qed

text \<open>
  Claim C10. On Windows the value of \<^verbatim>\<open>LOCALAPPDATA\<close> is not taken whenever the
  variable is set. Line 56 is
  \<^verbatim>\<open>Path(os.environ.get("LOCALAPPDATA", Path.home() / "AppData" / "Local"))\<close>: the
  default is evaluated before \<^verbatim>\<open>get\<close> looks the variable up. On a Windows host
  where \<^verbatim>\<open>LOCALAPPDATA\<close> is \<^verbatim>\<open>D:\Cache\<close> and the home directory cannot be
  determined, \<open>get_binary_path\<close> raises instead of returning
  \<^verbatim>\<open>D:\Cache\gcop-rs\bin\<close>, and \<open>main\<close> prints the error and returns 1. On the
  same host with a home directory the variable decides; without the variable the
  root is \<^verbatim>\<open>AppData\Local\<close> under the home directory.
\<close>

theorem get_binary_path_localappdata_needs_home:
  "system (homeless (win_host [''LOCALAPPDATA'' \<mapsto> ''D:'' @ [CHR 0x5C] @ ''Cache''] no_net)) =
     ''Windows'' \<and>
   environ (homeless (win_host [''LOCALAPPDATA'' \<mapsto> ''D:'' @ [CHR 0x5C] @ ''Cache''] no_net))
     ''LOCALAPPDATA'' = Some (''D:'' @ [CHR 0x5C] @ ''Cache'') \<and>
   get_binary_path (homeless (win_host [''LOCALAPPDATA'' \<mapsto> ''D:'' @ [CHR 0x5C] @ ''Cache''] no_net)) =
     Inl (RuntimeError ''Could not determine home directory.'') \<and>
   main (homeless (win_host [''LOCALAPPDATA'' \<mapsto> ''D:'' @ [CHR 0x5C] @ ''Cache''] no_net))
     cold_world =
     (Inr 1, cold_world\<lparr>stderr := [''Error: Could not determine home directory.'']\<rparr>) \<and>
   get_binary_path (win_host [''LOCALAPPDATA'' \<mapsto> ''D:'' @ [CHR 0x5C] @ ''Cache''] no_net) =
     Inr [''D:'', ''Cache'', ''gcop-rs'', ''bin''] \<and>
   get_binary_path (win_host Map.empty no_net) =
     Inr [''C:'', ''Users'', ''dev'', ''AppData'', ''Local'', ''gcop-rs'', ''bin'']"
proof -
  let ?g = "win_host [''LOCALAPPDATA'' \<mapsto> ''D:'' @ [CHR 0x5C] @ ''Cache''] no_net"
  have n: "get_binary_name (homeless ?g) = Inr (''windows-amd64.exe'', ''gcop-rs.exe'')"
    by (simp add: get_binary_name_def homeless_def win_host_def lower_def lower_char_def)
  have p: "get_binary_path (homeless ?g) = Inl (RuntimeError ''Could not determine home directory.'')"
    by (simp add: get_binary_path_no_home homeless_def)
  from n p have "download_binary (homeless ?g) cold_world =
      (Inl (RuntimeError ''Could not determine home directory.''), cold_world)"
    by (simp add: download_binary_def)
  then have m: "main (homeless ?g) cold_world =
      (Inr 1, cold_world\<lparr>stderr := [''Error: Could not determine home directory.'']\<rparr>)"
    by (simp add: main_def cold_world_def)
  have q: "get_binary_path ?g = Inr [''D:'', ''Cache'', ''gcop-rs'', ''bin'']"
    by (simp add: get_binary_path_def Path_home_def win_host_def joinpath_def
        windows_path_of_def)
  have s: "system (homeless ?g) = ''Windows''"
    "environ (homeless ?g) ''LOCALAPPDATA'' = Some (''D:'' @ [CHR 0x5C] @ ''Cache'')"
    by (simp_all add: homeless_def win_host_def)
  from s p m q win_path [of no_net] show ?thesis by (intro conjI)
qed

end
